theory Spec2Isabelle
  imports Complex_Main
begin

section \<open>Numbers\<close>

text \<open>
  The simulation computes with JavaScript numbers. They are modelled as mathematical
  reals: rounding, overflow and signed zeros of IEEE doubles are not represented. A
  non-finite value can arise from finite operands only in a division by zero: in
  \<open>Ball.checkPaddleCollision\<close> and in \<open>setupCanvas\<close>. There the quotient is a \<open>jsnum\<close>,
  so that division by zero is a branch of the model. An equation between computed
  numbers below is an equation between the exact values; the doubles of the program agree
  with them up to rounding.
\<close>

datatype jsnum = Num real | PosInfinity | NegInfinity | NaN

text \<open>The quotient \<open>a / b\<close> of two finite numbers (the divisor is never a negative zero here).\<close>

definition js_divide :: "real \<Rightarrow> real \<Rightarrow> jsnum" where
  "js_divide a b =
     (if b \<noteq> 0 then Num (a / b)
      else if 0 < a then PosInfinity
      else if a < 0 then NegInfinity
      else NaN)"

text \<open>The comparison \<open>v > c\<close> with a finite \<open>c\<close>: false when \<open>v\<close> is \<open>NaN\<close>.\<close>

fun js_greater :: "jsnum \<Rightarrow> real \<Rightarrow> bool" where
  "js_greater (Num r) c \<longleftrightarrow> r > c"
| "js_greater PosInfinity c \<longleftrightarrow> True"
| "js_greater NegInfinity c \<longleftrightarrow> False"
| "js_greater NaN c \<longleftrightarrow> False"

text \<open>\<open>Math.min(c, v)\<close> and \<open>Math.max(c, v)\<close> for a finite constant \<open>c\<close>.\<close>

fun Math_min :: "real \<Rightarrow> jsnum \<Rightarrow> jsnum" where
  "Math_min c (Num r) = Num (min c r)"
| "Math_min c PosInfinity = Num c"
| "Math_min c NegInfinity = NegInfinity"
| "Math_min c NaN = NaN"

fun Math_max :: "real \<Rightarrow> jsnum \<Rightarrow> jsnum" where
  "Math_max c (Num r) = Num (max c r)"
| "Math_max c PosInfinity = PosInfinity"
| "Math_max c NegInfinity = Num c"
| "Math_max c NaN = NaN"

text \<open>
  \<open>Math.atan2(vy, vx)\<close> on reals: the angle of the point \<open>(vx, vy)\<close> in \<open>(-\<pi>, \<pi>]\<close>,
  and \<open>0\<close> at the origin (where JavaScript answers \<open>0\<close> or \<open>\<pi>\<close> by the signs of
  the zeros; no property below rests on the value there).
\<close>

definition Math_atan2 :: "real \<Rightarrow> real \<Rightarrow> real" where
  "Math_atan2 vy vx =
     (if 0 < vx then arctan (vy / vx)
      else if vx < 0 then (if 0 \<le> vy then arctan (vy / vx) + pi else arctan (vy / vx) - pi)
      else if 0 < vy then pi / 2
      else if vy < 0 then - (pi / 2)
      else 0)"

section \<open>The entities\<close>

text \<open>
  The classes \<open>Ball\<close> (src/js/ball.js), \<open>Paddle\<close> (src/unnamed/part_000),
  \<open>InputHandler\<close> (second part of src/js/audio.js) and \<open>Game\<close> (second part of
  src/js/main.js) as records of their fields. Fields that only serve rendering (the
  colours, the canvas and its context) and the frame clock are left out. Mutation is state
  passing: a method takes the object and returns it updated.
\<close>

record bounds =
  left :: real
  right :: real
  top :: real
  bottom :: real

record ball =
  x :: real
  y :: real
  canvasWidth :: real
  canvasHeight :: real
  radius :: real
  initialSpeed :: real
  speed :: real
  maxSpeed :: real
  speedIncrement :: real
  maxBounceAngle :: real
  velocityX :: real
  velocityY :: real

record paddle =
  x :: real
  y :: real
  width :: real
  height :: real
  canvasHeight :: real
  isAI :: bool
  speed :: real
  velocity :: real
  aiTolerance :: real
  aiReturnSpeed :: real

text \<open>\<open>keys c\<close> holds when \<open>this.keys[c]\<close> is \<open>true\<close>.\<close>

record input_handler =
  keys :: "string \<Rightarrow> bool"
  touchDirection :: real
  isTouching :: bool

datatype game_state = PLAYING | GAME_OVER

text \<open>The calls \<open>playWallHit\<close>, \<open>playPaddleHit\<close>, \<open>playScore\<close>, \<open>playGameOver\<close> of the audio manager.\<close>

datatype sound = WallHitSound | PaddleHitSound | ScoreSound | GameOverSound

text \<open>
  \<open>played\<close> is the list of the audio manager's calls so far, oldest first.
  \<open>Math.random()\<close> is the sequence \<open>randomValues\<close> of its results (each in \<open>[0, 1)\<close>)
  and the number \<open>randomCalls\<close> of calls made so far.
\<close>

record game =
  width :: real
  height :: real
  state :: game_state
  playerScore :: nat
  aiScore :: nat
  targetScore :: nat
  inputHandler :: input_handler
  playerPaddle :: paddle
  aiPaddle :: paddle
  ball :: ball
  PADDLE_OFFSET :: real
  PADDLE_WIDTH :: real
  PADDLE_HEIGHT :: real
  played :: "sound list"
  randomValues :: "nat \<Rightarrow> real"
  randomCalls :: nat

text \<open>
  How a call completes. No constructor of the repository has a \<open>throw\<close> statement, so
  each of them completes with \<open>Returns\<close>.
\<close>

datatype 'a completion = Returns 'a | Throws

section \<open>Ball (src/js/ball.js)\<close>

text \<open>
  \<open>setRandomVelocity\<close>: \<open>rnd1\<close> and \<open>rnd2\<close> are the values of the two calls of
  \<open>Math.random()\<close>, both in \<open>[0, 1)\<close>, so that \<open>quadrant\<close> is one of 0, 1, 2, 3 and the
  last branch is \<open>case 3\<close>.
\<close>

definition setRandomVelocity :: "ball \<Rightarrow> real \<Rightarrow> real \<Rightarrow> ball" where
  "setRandomVelocity b rnd1 rnd2 =
     (let angle = rnd1 * pi / 6 + pi / 6;
          quadrant = \<lfloor>rnd2 * 4\<rfloor>;
          finalAngle =
            (if quadrant = 0 then angle
             else if quadrant = 1 then pi - angle
             else if quadrant = 2 then pi + angle
             else 2 * pi - angle)
      in b\<lparr>velocityX := cos finalAngle * ball.speed b,
            velocityY := sin finalAngle * ball.speed b\<rparr>)"

text \<open>The constructor: the fields as assigned, then \<open>setRandomVelocity\<close>.\<close>

definition Ball_new :: "real \<Rightarrow> real \<Rightarrow> real \<Rightarrow> real \<Rightarrow> real \<Rightarrow> real \<Rightarrow> ball" where
  "Ball_new x0 y0 cw ch rnd1 rnd2 =
     setRandomVelocity
       \<lparr>ball.x = x0, ball.y = y0, canvasWidth = cw, ball.canvasHeight = ch,
        radius = 10, initialSpeed = 300, ball.speed = 300, maxSpeed = 600,
        speedIncrement = 105 / 100, maxBounceAngle = pi / 3,
        velocityX = 0, velocityY = 0\<rparr>
       rnd1 rnd2"

definition Ball_update :: "ball \<Rightarrow> real \<Rightarrow> ball" where
  "Ball_update b deltaTime =
     b\<lparr>ball.x := ball.x b + velocityX b * deltaTime,
       ball.y := ball.y b + velocityY b * deltaTime\<rparr>"

text \<open>The two tests of \<open>checkWallCollision\<close>, each on the ball as it is when the test runs.\<close>

definition topWallCrossed :: "ball \<Rightarrow> bool" where
  "topWallCrossed b \<longleftrightarrow> ball.y b - radius b \<le> 0"

definition bottomWallCrossed :: "ball \<Rightarrow> bool" where
  "bottomWallCrossed b \<longleftrightarrow> ball.canvasHeight b \<le> ball.y b + radius b"

definition bounceDown :: "ball \<Rightarrow> ball" where
  "bounceDown b = b\<lparr>ball.y := radius b, velocityY := \<bar>velocityY b\<bar>\<rparr>"

definition bounceUp :: "ball \<Rightarrow> ball" where
  "bounceUp b = b\<lparr>ball.y := ball.canvasHeight b - radius b, velocityY := - \<bar>velocityY b\<bar>\<rparr>"

definition checkWallCollision :: "ball \<Rightarrow> ball \<times> bool" where
  "checkWallCollision b =
     (let hit = False;
          (b, hit) = (if topWallCrossed b then (bounceDown b, True) else (b, hit));
          (b, hit) = (if bottomWallCrossed b then (bounceUp b, True) else (b, hit))
      in (b, hit))"

definition Ball_getBounds :: "ball \<Rightarrow> bounds" where
  "Ball_getBounds b =
     \<lparr>left = ball.x b - radius b, right = ball.x b + radius b,
      top = ball.y b - radius b, bottom = ball.y b + radius b\<rparr>"

definition increaseSpeed :: "ball \<Rightarrow> ball" where
  "increaseSpeed b =
     (let b = b\<lparr>ball.speed := min (ball.speed b * speedIncrement b) (maxSpeed b)\<rparr>;
          currentAngle = Math_atan2 (velocityY b) (velocityX b)
      in b\<lparr>velocityX := cos currentAngle * ball.speed b,
            velocityY := sin currentAngle * ball.speed b\<rparr>)"

definition applyPaddleHit :: "ball \<Rightarrow> real \<Rightarrow> ball" where
  "applyPaddleHit b hitPoint =
     (let b = b\<lparr>velocityX := velocityX b * (- 1)\<rparr>;
          angle = hitPoint * maxBounceAngle b;
          currentSpeed = sqrt (velocityX b * velocityX b + velocityY b * velocityY b);
          xSign = sgn (velocityX b);
          b = b\<lparr>velocityX := xSign * currentSpeed * cos angle,
                velocityY := currentSpeed * sin angle\<rparr>;
          b = increaseSpeed b;
          separation = 2
      in b\<lparr>ball.x := ball.x b + xSign * separation\<rparr>)"

definition Ball_reset :: "ball \<Rightarrow> real \<Rightarrow> real \<Rightarrow> real \<Rightarrow> real \<Rightarrow> ball" where
  "Ball_reset b x0 y0 rnd1 rnd2 =
     setRandomVelocity (b\<lparr>ball.x := x0, ball.y := y0, ball.speed := initialSpeed b\<rparr>) rnd1 rnd2"

section \<open>InputHandler (src/js/audio.js, second part)\<close>

definition InputHandler_new :: input_handler where
  "InputHandler_new = \<lparr>keys = (\<lambda>c. False), touchDirection = 0, isTouching = False\<rparr>"

definition getInputDirection :: "input_handler \<Rightarrow> real" where
  "getInputDirection ih =
     (if keys ih ''KeyW'' \<or> keys ih ''ArrowUp'' then - 1
      else if keys ih ''KeyS'' \<or> keys ih ''ArrowDown'' then 1
      else touchDirection ih)"

definition isKeyPressed :: "input_handler \<Rightarrow> string \<Rightarrow> bool" where
  "isKeyPressed ih keyCode \<longleftrightarrow> keys ih keyCode"

definition isTouchActive :: "input_handler \<Rightarrow> bool" where
  "isTouchActive ih \<longleftrightarrow> isTouching ih"

section \<open>Paddle (src/unnamed/part_000)\<close>

definition Paddle_new :: "real \<Rightarrow> real \<Rightarrow> real \<Rightarrow> real \<Rightarrow> real \<Rightarrow> bool \<Rightarrow> paddle" where
  "Paddle_new x0 y0 w h ch ai =
     \<lparr>paddle.x = x0, paddle.y = y0, paddle.width = w, paddle.height = h,
      paddle.canvasHeight = ch, isAI = ai, paddle.speed = 300, velocity = 0,
      aiTolerance = 15, aiReturnSpeed = 6 / 10\<rparr>"

text \<open>The last assignment of \<open>update\<close> and of \<open>updateAI\<close>: "enforce screen bounds".\<close>

definition enforceBounds :: "paddle \<Rightarrow> paddle" where
  "enforceBounds p =
     p\<lparr>paddle.y := max 0 (min (paddle.canvasHeight p - paddle.height p) (paddle.y p))\<rparr>"

definition Paddle_update :: "paddle \<Rightarrow> real \<Rightarrow> input_handler \<Rightarrow> paddle" where
  "Paddle_update p deltaTime ih =
     (if isAI p then p
      else
        let direction = getInputDirection ih;
            p = p\<lparr>velocity := direction\<rparr>;
            p = p\<lparr>paddle.y := paddle.y p + velocity p * paddle.speed p * deltaTime\<rparr>
        in enforceBounds p)"

definition Paddle_updateAI :: "paddle \<Rightarrow> ball \<Rightarrow> real \<Rightarrow> paddle" where
  "Paddle_updateAI p b deltaTime =
     (if \<not> isAI p then p
      else
        let paddleCenter = paddle.y p + paddle.height p / 2;
            canvasCenter = paddle.canvasHeight p / 2;
            ballMovingTowardAI = (velocityX b > 0);
            p =
              (if ballMovingTowardAI then
                 let ballY = ball.y b;
                     p =
                       (if ballY < paddleCenter - aiTolerance p then p\<lparr>velocity := - 1\<rparr>
                        else if ballY > paddleCenter + aiTolerance p then p\<lparr>velocity := 1\<rparr>
                        else p\<lparr>velocity := 0\<rparr>)
                 in p\<lparr>paddle.y := paddle.y p + velocity p * paddle.speed p * deltaTime\<rparr>
               else if paddleCenter < canvasCenter - 10 then
                 let p = p\<lparr>velocity := 1\<rparr>
                 in p\<lparr>paddle.y :=
                       paddle.y p + velocity p * paddle.speed p * aiReturnSpeed p * deltaTime\<rparr>
               else if paddleCenter > canvasCenter + 10 then
                 let p = p\<lparr>velocity := - 1\<rparr>
                 in p\<lparr>paddle.y :=
                       paddle.y p + velocity p * paddle.speed p * aiReturnSpeed p * deltaTime\<rparr>
               else p\<lparr>velocity := 0\<rparr>)
        in enforceBounds p)"

definition Paddle_getBounds :: "paddle \<Rightarrow> bounds" where
  "Paddle_getBounds p =
     \<lparr>left = paddle.x p, right = paddle.x p + paddle.width p,
      top = paddle.y p, bottom = paddle.y p + paddle.height p\<rparr>"

definition Paddle_reset :: "paddle \<Rightarrow> real \<Rightarrow> real \<Rightarrow> paddle" where
  "Paddle_reset p x0 y0 = p\<lparr>paddle.x := x0, paddle.y := y0, velocity := 0\<rparr>"

section \<open>Ball against paddle (src/js/ball.js)\<close>

text \<open>The overlap test of \<open>checkPaddleCollision\<close>: \<open>xOverlap && yOverlap\<close>.\<close>

definition boxesOverlap :: "bounds \<Rightarrow> bounds \<Rightarrow> bool" where
  "boxesOverlap ballBounds paddleBounds \<longleftrightarrow>
     (let xOverlap = (right ballBounds \<ge> left paddleBounds \<and> left ballBounds \<le> right paddleBounds);
          yOverlap = (bottom ballBounds \<ge> top paddleBounds \<and> top ballBounds \<le> bottom paddleBounds)
      in xOverlap \<and> yOverlap)"

text \<open>
  \<open>checkPaddleCollision\<close> returns \<open>None\<close> for \<open>null\<close>. It assigns to no field of the ball
  or of the paddle, so the model returns the result only.
\<close>

definition checkPaddleCollision :: "ball \<Rightarrow> paddle \<Rightarrow> jsnum option" where
  "checkPaddleCollision b p =
     (let ballBounds = Ball_getBounds b;
          paddleBounds = Paddle_getBounds p
      in if boxesOverlap ballBounds paddleBounds then
           let paddleCenter = paddle.y p + paddle.height p / 2;
               hitPoint = js_divide (ball.y b - paddleCenter) (paddle.height p / 2)
           in Some (Math_max (- 1) (Math_min 1 hitPoint))
         else None)"

section \<open>Canvas set-up (src/js/main.js, first part)\<close>

text \<open>
  The arithmetic of \<open>setupCanvas\<close>, from the window's inner width and height to the
  \<open>width\<close> and \<open>height\<close> it returns. These are the bounds \<open>Game\<close> is constructed and
  resized with.
\<close>

definition setupCanvas :: "real \<Rightarrow> real \<Rightarrow> real \<times> real" where
  "setupCanvas innerWidth innerHeight =
     (let aspectRatio = 3 / 2;
          width = innerWidth;
          height = innerHeight;
          margin = (if width < 768 then 20 else 40);
          width = width - margin;
          height = height - margin
      in if js_greater (js_divide width height) aspectRatio then
           let height = min height 600;
               width = height * aspectRatio
           in (width, height)
         else
           let width = min width 900;
               height = width / aspectRatio
           in (width, height))"

section \<open>Game (src/js/main.js, second part)\<close>

text \<open>The constructor and \<open>init\<close>; \<open>rnd\<close> is the sequence of the results of \<open>Math.random()\<close>.\<close>

definition Game_new :: "real \<Rightarrow> real \<Rightarrow> (nat \<Rightarrow> real) \<Rightarrow> game" where
  "Game_new w h rnd =
     (let offset = 20; pw = 8; ph = 80
      in \<lparr>game.width = w, game.height = h, state = PLAYING,
          playerScore = 0, aiScore = 0, targetScore = 10,
          inputHandler = InputHandler_new,
          playerPaddle = Paddle_new offset (h / 2 - ph / 2) pw ph h False,
          aiPaddle = Paddle_new (w - offset - pw) (h / 2 - ph / 2) pw ph h True,
          ball = Ball_new (w / 2) (h / 2) w h (rnd 0) (rnd 1),
          PADDLE_OFFSET = offset, PADDLE_WIDTH = pw, PADDLE_HEIGHT = ph,
          played = [], randomValues = rnd, randomCalls = 2\<rparr>)"

definition play :: "sound \<Rightarrow> game \<Rightarrow> game" where
  "play s g = g\<lparr>played := played g @ [s]\<rparr>"

text \<open>\<open>this.ball.reset(this.width / 2, this.height / 2)\<close>, with its two calls of \<open>Math.random()\<close>.\<close>

definition resetBall :: "game \<Rightarrow> game" where
  "resetBall g =
     g\<lparr>ball := Ball_reset (ball g) (game.width g / 2) (game.height g / 2)
                 (randomValues g (randomCalls g)) (randomValues g (randomCalls g + 1)),
       randomCalls := randomCalls g + 2\<rparr>"

definition checkWinCondition :: "game \<Rightarrow> game" where
  "checkWinCondition g =
     (if playerScore g \<ge> targetScore g \<or> aiScore g \<ge> targetScore g
      then play GameOverSound (g\<lparr>state := GAME_OVER\<rparr>)
      else g)"

text \<open>The two branches of \<open>checkScoring\<close>.\<close>

definition aiScores :: "game \<Rightarrow> game" where
  "aiScores g = checkWinCondition (resetBall (play ScoreSound (g\<lparr>aiScore := aiScore g + 1\<rparr>)))"

definition playerScores :: "game \<Rightarrow> game" where
  "playerScores g =
     checkWinCondition (resetBall (play ScoreSound (g\<lparr>playerScore := playerScore g + 1\<rparr>)))"

definition checkScoring :: "game \<Rightarrow> game" where
  "checkScoring g =
     (let ballX = ball.x (ball g);
          ballRadius = radius (ball g);
          g = (if ballX + ballRadius < 0 then aiScores g else g);
          g = (if ballX - ballRadius > game.width g then playerScores g else g)
      in g)"

text \<open>
  One paddle check of \<open>checkCollisions\<close>. The result is \<open>None\<close> when the hit point is not a
  finite number: \<open>applyPaddleHit\<close> then makes both velocities \<open>NaN\<close>, which the reals do
  not represent.
\<close>

definition paddleCheck :: "game \<Rightarrow> paddle \<Rightarrow> game option" where
  "paddleCheck g p =
     (case checkPaddleCollision (ball g) p of
        None \<Rightarrow> Some g
      | Some (Num hitPoint) \<Rightarrow>
          Some (play PaddleHitSound (g\<lparr>ball := applyPaddleHit (ball g) hitPoint\<rparr>))
      | Some _ \<Rightarrow> None)"

definition checkCollisions :: "game \<Rightarrow> game option" where
  "checkCollisions g =
     (let (b, hit) = checkWallCollision (ball g);
          g = g\<lparr>ball := b\<rparr>;
          g = (if hit then play WallHitSound g else g)
      in case paddleCheck g (playerPaddle g) of
           None \<Rightarrow> None
         | Some g \<Rightarrow> paddleCheck g (aiPaddle g))"

definition Game_reset :: "game \<Rightarrow> game" where
  "Game_reset g =
     (let g = g\<lparr>state := PLAYING, playerScore := 0, aiScore := 0\<rparr>;
          g = g\<lparr>playerPaddle :=
                 Paddle_reset (playerPaddle g) (PADDLE_OFFSET g)
                   (game.height g / 2 - PADDLE_HEIGHT g / 2)\<rparr>;
          g = g\<lparr>aiPaddle :=
                 Paddle_reset (aiPaddle g) (game.width g - PADDLE_OFFSET g - PADDLE_WIDTH g)
                   (game.height g / 2 - PADDLE_HEIGHT g / 2)\<rparr>
      in resetBall g)"

text \<open>The first block of \<open>update\<close>, run when the state is \<open>PLAYING\<close>.\<close>

definition updatePlaying :: "game \<Rightarrow> real \<Rightarrow> game option" where
  "updatePlaying g deltaTime =
     (let g = g\<lparr>playerPaddle := Paddle_update (playerPaddle g) deltaTime (inputHandler g)\<rparr>;
          g = g\<lparr>aiPaddle := Paddle_updateAI (aiPaddle g) (ball g) deltaTime\<rparr>;
          g = g\<lparr>ball := Ball_update (ball g) deltaTime\<rparr>
      in map_option checkScoring (checkCollisions g))"

definition restartRequested :: "game \<Rightarrow> bool" where
  "restartRequested g \<longleftrightarrow>
     isKeyPressed (inputHandler g) ''Space'' \<or> isTouchActive (inputHandler g)"

text \<open>The second block of \<open>update\<close>, run when the state is \<open>GAME_OVER\<close>.\<close>

definition updateGameOver :: "game \<Rightarrow> game" where
  "updateGameOver g = (if restartRequested g then Game_reset g else g)"

definition update :: "game \<Rightarrow> real \<Rightarrow> game option" where
  "update g deltaTime =
     (case (if state g = PLAYING then updatePlaying g deltaTime else Some g) of
        None \<Rightarrow> None
      | Some g \<Rightarrow> Some (if state g = GAME_OVER then updateGameOver g else g))"

definition handleResize :: "game \<Rightarrow> real \<Rightarrow> real \<Rightarrow> game" where
  "handleResize g newWidth newHeight =
     (let g = g\<lparr>game.width := newWidth, game.height := newHeight\<rparr>;
          g = g\<lparr>playerPaddle := (playerPaddle g)\<lparr>paddle.canvasHeight := newHeight\<rparr>\<rparr>;
          g = g\<lparr>aiPaddle := (aiPaddle g)\<lparr>paddle.canvasHeight := newHeight\<rparr>\<rparr>;
          g = g\<lparr>ball := (ball g)\<lparr>canvasWidth := newWidth, ball.canvasHeight := newHeight\<rparr>\<rparr>;
          g = g\<lparr>playerPaddle := (playerPaddle g)\<lparr>paddle.x := PADDLE_OFFSET g\<rparr>\<rparr>;
          g = g\<lparr>aiPaddle :=
                 (aiPaddle g)\<lparr>paddle.x := newWidth - PADDLE_OFFSET g - PADDLE_WIDTH g\<rparr>\<rparr>
      in g)"

text \<open>
  The constructors as calls: each runs its body, which has no \<open>throw\<close>, and returns the
  object.
\<close>

definition construct_Ball ::
  "real \<Rightarrow> real \<Rightarrow> real \<Rightarrow> real \<Rightarrow> real \<Rightarrow> real \<Rightarrow> ball completion" where
  "construct_Ball x0 y0 cw ch rnd1 rnd2 = Returns (Ball_new x0 y0 cw ch rnd1 rnd2)"

definition construct_Paddle ::
  "real \<Rightarrow> real \<Rightarrow> real \<Rightarrow> real \<Rightarrow> real \<Rightarrow> bool \<Rightarrow> paddle completion" where
  "construct_Paddle x0 y0 w h ch ai = Returns (Paddle_new x0 y0 w h ch ai)"

definition construct_Game :: "real \<Rightarrow> real \<Rightarrow> (nat \<Rightarrow> real) \<Rightarrow> game completion" where
  "construct_Game w h rnd = Returns (Game_new w h rnd)"

section \<open>Notions used by the properties\<close>

subsection \<open>Ball\<close>

text \<open>The magnitude of the velocity, as \<open>applyPaddleHit\<close> computes its \<open>currentSpeed\<close>.\<close>

definition velocityMagnitude :: "ball \<Rightarrow> real" where
  "velocityMagnitude b = sqrt (velocityX b * velocityX b + velocityY b * velocityY b)"

text \<open>The constants the constructor of \<open>Ball\<close> assigns; no method assigns them again.\<close>

definition ball_constants :: "ball \<Rightarrow> bool" where
  "ball_constants b \<longleftrightarrow>
     radius b = 10 \<and> initialSpeed b = 300 \<and> maxSpeed b = 600 \<and>
     speedIncrement b = 105 / 100 \<and> maxBounceAngle b = pi / 3"

text \<open>The invariant of the ball: the velocity has the magnitude \<open>speed\<close>, and \<open>0 < speed \<le> maxSpeed\<close>.\<close>

definition ball_inv :: "ball \<Rightarrow> bool" where
  "ball_inv b \<longleftrightarrow>
     ball_constants b \<and> velocityMagnitude b = ball.speed b \<and>
     0 < ball.speed b \<and> ball.speed b \<le> maxSpeed b"

text \<open>
  The ball after the assignments to \<open>velocityX\<close> and \<open>velocityY\<close> in \<open>applyPaddleHit\<close>,
  before \<open>increaseSpeed\<close> runs.
\<close>

definition rebound :: "ball \<Rightarrow> real \<Rightarrow> ball" where
  "rebound b h =
     b\<lparr>velocityX := sgn (- velocityX b) * velocityMagnitude b * cos (h * maxBounceAngle b),
       velocityY := velocityMagnitude b * sin (h * maxBounceAngle b)\<rparr>"

text \<open>The ball as the bottom test of \<open>checkWallCollision\<close> finds it.\<close>

definition afterTopCheck :: "ball \<Rightarrow> ball" where
  "afterTopCheck b = (if topWallCrossed b then bounceDown b else b)"


text \<open>The methods of \<open>Ball\<close> that assign to its fields, as the operations of a run.\<close>

datatype ball_op =
    SetRandomVelocity real real
  | Update real
  | CheckWallCollision
  | ApplyPaddleHit real
  | IncreaseSpeed
  | Reset real real real real

fun ball_step :: "ball \<Rightarrow> ball_op \<Rightarrow> ball" where
  "ball_step b (SetRandomVelocity rnd1 rnd2) = setRandomVelocity b rnd1 rnd2"
| "ball_step b (Update deltaTime) = Ball_update b deltaTime"
| "ball_step b CheckWallCollision = fst (checkWallCollision b)"
| "ball_step b (ApplyPaddleHit hitPoint) = applyPaddleHit b hitPoint"
| "ball_step b IncreaseSpeed = increaseSpeed b"
| "ball_step b (Reset x0 y0 rnd1 rnd2) = Ball_reset b x0 y0 rnd1 rnd2"

text \<open>
  The operations as the game issues them: the first random draw of a velocity is a result
  of \<open>Math.random()\<close>, and a hit point is a result of \<open>checkPaddleCollision\<close>.
\<close>

fun game_op :: "ball_op \<Rightarrow> bool" where
  "game_op (SetRandomVelocity rnd1 rnd2) \<longleftrightarrow> 0 \<le> rnd1 \<and> rnd1 < 1"
| "game_op (Reset x0 y0 rnd1 rnd2) \<longleftrightarrow> 0 \<le> rnd1 \<and> rnd1 < 1"
| "game_op (ApplyPaddleHit hitPoint) \<longleftrightarrow> - 1 \<le> hitPoint \<and> hitPoint \<le> 1"
| "game_op _ \<longleftrightarrow> True"

subsection \<open>Game\<close>

text \<open>The two tests of \<open>checkScoring\<close>, on the game as it is when \<open>checkScoring\<close> starts.\<close>

definition exitedLeft :: "game \<Rightarrow> bool" where
  "exitedLeft g \<longleftrightarrow> ball.x (ball g) + radius (ball g) < 0"

definition exitedRight :: "game \<Rightarrow> bool" where
  "exitedRight g \<longleftrightarrow> ball.x (ball g) - radius (ball g) > game.width g"

text \<open>The state is \<open>GAME_OVER\<close> exactly when a score has reached the target.\<close>

definition score_state_ok :: "game \<Rightarrow> bool" where
  "score_state_ok g \<longleftrightarrow>
     (state g = GAME_OVER) = (targetScore g \<le> playerScore g \<or> targetScore g \<le> aiScore g)"

text \<open>
  The invariant of the game. The constructor makes both paddles \<open>PADDLE_HEIGHT = 80\<close> high
  and no method of \<open>Game\<close> assigns a paddle's height or the target score.
\<close>

definition game_inv :: "game \<Rightarrow> bool" where
  "game_inv g \<longleftrightarrow>
     0 < targetScore g \<and> score_state_ok g \<and>
     paddle.height (playerPaddle g) \<noteq> 0 \<and> paddle.height (aiPaddle g) \<noteq> 0"

text \<open>The game after the first three statements of the \<open>PLAYING\<close> block of \<open>update\<close>.\<close>

definition afterMotion :: "game \<Rightarrow> real \<Rightarrow> game" where
  "afterMotion g deltaTime =
     g\<lparr>playerPaddle := Paddle_update (playerPaddle g) deltaTime (inputHandler g),
       aiPaddle := Paddle_updateAI (aiPaddle g) (ball g) deltaTime,
       ball := Ball_update (ball g) deltaTime\<rparr>"

text \<open>
  What drives a game once it is constructed: a frame, for which the DOM events since the
  last one have left the input handler in some state and \<open>update\<close> runs with an elapsed
  time (\<open>gameLoop\<close> passes \<open>min deltaTime 0.1\<close>; any time is allowed here), and a resize of
  the window. A run is a sequence of such events.
\<close>

datatype event = Frame input_handler real | Resize real real

fun step :: "game \<Rightarrow> event \<Rightarrow> game option" where
  "step g (Frame ih deltaTime) = update (g\<lparr>inputHandler := ih\<rparr>) deltaTime"
| "step g (Resize newWidth newHeight) = Some (handleResize g newWidth newHeight)"

fun run :: "game \<Rightarrow> event list \<Rightarrow> game option" where
  "run g [] = Some g"
| "run g (e # es) = (case step g e of None \<Rightarrow> None | Some g' \<Rightarrow> run g' es)"

text \<open>
  Scenario 1 of the specification: a new game on a canvas 800 wide and \<open>H\<close> high, with
  any input, whose ball is at \<open>(5, H / 2)\<close> with \<open>velocityX = -50\<close>.
\<close>

definition scenario1 :: "real \<Rightarrow> (nat \<Rightarrow> real) \<Rightarrow> input_handler \<Rightarrow> game" where
  "scenario1 H rnd ih =
     (let g = Game_new 800 H rnd
      in g\<lparr>inputHandler := ih,
           ball := (ball g)\<lparr>ball.x := 5, ball.y := H / 2, velocityX := - 50\<rparr>\<rparr>)"

text \<open>
  Scenario 4 of the specification: \<open>n\<close> consecutive points of the AI. Each tick finds
  the ball one pixel beyond the left edge.
\<close>

definition ballBeyondLeft :: "game \<Rightarrow> game" where
  "ballBeyondLeft g = g\<lparr>ball := (ball g)\<lparr>ball.x := - radius (ball g) - 1\<rparr>\<rparr>"

fun aiScoringTicks :: "nat \<Rightarrow> game \<Rightarrow> game option" where
  "aiScoringTicks 0 g = Some g"
| "aiScoringTicks (Suc n) g =
     (case aiScoringTicks n g of None \<Rightarrow> None | Some g' \<Rightarrow> update (ballBeyondLeft g') 0)"

text \<open>The part of the game that a tick without paddle hit and without restart leaves alone.\<close>

definition arena ::
  "game \<Rightarrow> real \<times> real \<times> nat \<times> input_handler \<times> real \<times> real \<times> real \<times> real" where
  "arena g =
     (game.width g, game.height g, targetScore g, inputHandler g,
      paddle.x (playerPaddle g), paddle.x (aiPaddle g), radius (ball g), initialSpeed (ball g))"

subsection \<open>Sample states\<close>

text \<open>A ball in mid-field moving right at the initial speed.\<close>

definition ballMovingRight :: ball where
  "ballMovingRight =
     \<lparr>ball.x = 400, ball.y = 300, canvasWidth = 800, ball.canvasHeight = 600,
      radius = 10, initialSpeed = 300, ball.speed = 300, maxSpeed = 600,
      speedIncrement = 105 / 100, maxBounceAngle = pi / 3,
      velocityX = 300, velocityY = 0\<rparr>"

text \<open>A ball that has crossed the top wall of a canvas 800 by 600, moving up and left.\<close>

definition ballNearTop :: ball where
  "ballNearTop =
     \<lparr>ball.x = 400, ball.y = 4, canvasWidth = 800, ball.canvasHeight = 600,
      radius = 10, initialSpeed = 300, ball.speed = 300, maxSpeed = 600,
      speedIncrement = 105 / 100, maxBounceAngle = pi / 3,
      velocityX = - 180, velocityY = - 240\<rparr>"

text \<open>
  The ball of a new game on a canvas 15 wide and 10 high, which is what \<open>setupCanvas\<close>
  returns in a window 1000 wide and 50 high; both random draws are 0.
\<close>

definition ballOnLowCanvas :: ball where
  "ballOnLowCanvas = Ball_new (15 / 2) 5 15 10 0 0"

text \<open>
  The human paddle of a new game on a canvas 90 wide and 60 high, which is what
  \<open>setupCanvas\<close> returns in a window 1000 wide and 100 high.
\<close>

definition paddleOnLowCanvas :: paddle where
  "paddleOnLowCanvas = Paddle_new 20 (- 10) 8 80 60 False"


definition flatPaddle :: paddle where
  "flatPaddle = Paddle_new 20 300 8 0 600 False"

definition ballAtPaddle :: ball where
  "ballAtPaddle =
     \<lparr>ball.x = 24, ball.y = 300, canvasWidth = 800, ball.canvasHeight = 600,
      radius = 10, initialSpeed = 300, ball.speed = 300, maxSpeed = 600,
      speedIncrement = 105 / 100, maxBounceAngle = pi / 3,
      velocityX = - 180, velocityY = 240\<rparr>"

text \<open>Scenario 2 of the specification: the human paddle, and the down key held.\<close>

definition humanPaddle :: paddle where
  "humanPaddle = Paddle_new 20 100 8 80 400 False"

definition downPressed :: input_handler where
  "downPressed = InputHandler_new\<lparr>keys := (\<lambda>c. c = ''ArrowDown'')\<rparr>"

section \<open>Lemmas on the numbers\<close>

lemma sqrt_ratio_pos:
  fixes a b :: real
  assumes "0 < a"
  shows "sqrt (1 + (b / a)\<^sup>2) = sqrt (a\<^sup>2 + b\<^sup>2) / a"
proof -
  have "1 + (b / a)\<^sup>2 = (a\<^sup>2 + b\<^sup>2) / a\<^sup>2"
    using assms by (simp add: field_simps power2_eq_square)
  then have "sqrt (1 + (b / a)\<^sup>2) = sqrt (a\<^sup>2 + b\<^sup>2) / sqrt (a\<^sup>2)"
    by (simp add: real_sqrt_divide)
  then show ?thesis using assms by simp
qed

lemma sqrt_ratio_neg:
  fixes a b :: real
  assumes "a < 0"
  shows "sqrt (1 + (b / a)\<^sup>2) = - (sqrt (a\<^sup>2 + b\<^sup>2) / a)"
proof -
  have "1 + (b / a)\<^sup>2 = (a\<^sup>2 + b\<^sup>2) / a\<^sup>2"
    using assms by (simp add: field_simps power2_eq_square)
  then have "sqrt (1 + (b / a)\<^sup>2) = sqrt (a\<^sup>2 + b\<^sup>2) / sqrt (a\<^sup>2)"
    by (simp add: real_sqrt_divide)
  then show ?thesis using assms by simp
qed

lemma sqrt_sum_pos:
  fixes a b :: real
  assumes "a \<noteq> 0 \<or> b \<noteq> 0"
  shows "0 < sqrt (a\<^sup>2 + b\<^sup>2)"
  using assms by (auto simp: sum_power2_gt_zero_iff)

lemma cos_atan2:
  assumes "vx \<noteq> 0 \<or> vy \<noteq> 0"
  shows "cos (Math_atan2 vy vx) = vx / sqrt (vx\<^sup>2 + vy\<^sup>2)"
proof -
  have pos: "0 < sqrt (vx\<^sup>2 + vy\<^sup>2)" using assms by (rule sqrt_sum_pos)
  consider "0 < vx" | "vx < 0" | "vx = 0" "vy \<noteq> 0" using assms by fastforce
  then show ?thesis
  proof cases
    case 1
    then show ?thesis using pos
      by (simp add: Math_atan2_def cos_arctan sqrt_ratio_pos)
  next
    case 2
    then show ?thesis using pos
      by (simp add: Math_atan2_def cos_arctan sqrt_ratio_neg)
  next
    case 3
    then show ?thesis by (simp add: Math_atan2_def)
  qed
qed

lemma sin_atan2:
  assumes "vx \<noteq> 0 \<or> vy \<noteq> 0"
  shows "sin (Math_atan2 vy vx) = vy / sqrt (vx\<^sup>2 + vy\<^sup>2)"
proof -
  have pos: "0 < sqrt (vx\<^sup>2 + vy\<^sup>2)" using assms by (rule sqrt_sum_pos)
  consider "0 < vx" | "vx < 0" | "vx = 0" "0 < vy" | "vx = 0" "vy < 0" using assms by fastforce
  then show ?thesis
  proof cases
    case 1
    then show ?thesis using pos
      by (simp add: Math_atan2_def sin_arctan sqrt_ratio_pos)
  next
    case 2
    then show ?thesis using pos
      by (simp add: Math_atan2_def sin_arctan sqrt_ratio_neg)
  next
    case 3
    then show ?thesis by (simp add: Math_atan2_def)
  next
    case 4
    then show ?thesis by (simp add: Math_atan2_def)
  qed
qed

lemma atan2_origin: "Math_atan2 0 0 = 0"
  by (simp add: Math_atan2_def)

section \<open>Lemmas on the ball\<close>

lemma polar_magnitude:
  fixes a s :: real
  shows "sqrt (cos a * s * (cos a * s) + sin a * s * (sin a * s)) = \<bar>s\<bar>"
proof -
  have one: "cos a * cos a + sin a * sin a = 1"
    using sin_cos_squared_add2 [of a] by (simp add: power2_eq_square)
  have "cos a * s * (cos a * s) + sin a * s * (sin a * s) = (cos a * cos a + sin a * sin a) * (s * s)"
    by (simp only: distrib_right distrib_left mult_ac)
  also have "\<dots> = s * s" by (simp only: one mult_1)
  finally show ?thesis by simp
qed

lemma setRandomVelocity_magnitude:
  "velocityMagnitude (setRandomVelocity b r1 r2) = \<bar>ball.speed b\<bar>"
  by (simp add: setRandomVelocity_def velocityMagnitude_def Let_def polar_magnitude)

lemma setRandomVelocity_fields:
  "ball.speed (setRandomVelocity b r1 r2) = ball.speed b"
  "ball.x (setRandomVelocity b r1 r2) = ball.x b"
  "ball.y (setRandomVelocity b r1 r2) = ball.y b"
  "maxSpeed (setRandomVelocity b r1 r2) = maxSpeed b"
  "ball_constants (setRandomVelocity b r1 r2) = ball_constants b"
  by (simp_all add: setRandomVelocity_def Let_def ball_constants_def)

lemma increaseSpeed_speed:
  "ball.speed (increaseSpeed b) = min (ball.speed b * speedIncrement b) (maxSpeed b)"
  by (simp add: increaseSpeed_def Let_def)

lemma increaseSpeed_fields:
  "ball.x (increaseSpeed b) = ball.x b"
  "ball.y (increaseSpeed b) = ball.y b"
  "maxSpeed (increaseSpeed b) = maxSpeed b"
  "ball_constants (increaseSpeed b) = ball_constants b"
  by (simp_all add: increaseSpeed_def Let_def ball_constants_def)

lemma increaseSpeed_magnitude:
  "velocityMagnitude (increaseSpeed b) = \<bar>ball.speed (increaseSpeed b)\<bar>"
  by (simp add: increaseSpeed_def velocityMagnitude_def Let_def polar_magnitude)

lemma increaseSpeed_velocity:
  assumes "velocityX b \<noteq> 0 \<or> velocityY b \<noteq> 0"
  shows "velocityX (increaseSpeed b) = ball.speed (increaseSpeed b) / velocityMagnitude b * velocityX b"
    and "velocityY (increaseSpeed b) = ball.speed (increaseSpeed b) / velocityMagnitude b * velocityY b"
  using assms cos_atan2 [of "velocityX b" "velocityY b"] sin_atan2 [of "velocityX b" "velocityY b"]
  by (simp_all add: increaseSpeed_def velocityMagnitude_def Let_def power2_eq_square)

lemma speed_grows:
  assumes "ball_inv b"
  shows "ball.speed b \<le> min (ball.speed b * speedIncrement b) (maxSpeed b)"
    and "0 < min (ball.speed b * speedIncrement b) (maxSpeed b)"
  using assms by (auto simp: ball_inv_def ball_constants_def)

lemma increaseSpeed_inv:
  assumes c: "ball_constants b" and p: "0 < ball.speed b"
  shows "ball_inv (increaseSpeed b)"
proof -
  have c': "ball_constants (increaseSpeed b)" using c by (simp add: increaseSpeed_fields)
  have s: "0 < ball.speed (increaseSpeed b)" "ball.speed (increaseSpeed b) \<le> maxSpeed b"
    using c p by (simp_all add: increaseSpeed_speed ball_constants_def)
  show ?thesis
    using c' s by (simp add: ball_inv_def increaseSpeed_magnitude increaseSpeed_fields)
qed

lemma applyPaddleHit_as_increaseSpeed:
  "applyPaddleHit b h =
     (increaseSpeed
        (b\<lparr>velocityX := sgn (- velocityX b) * velocityMagnitude b * cos (h * maxBounceAngle b),
            velocityY := velocityMagnitude b * sin (h * maxBounceAngle b)\<rparr>))
     \<lparr>ball.x := ball.x b + sgn (- velocityX b) * 2\<rparr>"
  by (simp add: applyPaddleHit_def Let_def velocityMagnitude_def increaseSpeed_def)

lemma applyPaddleHit_speed:
  "ball.speed (applyPaddleHit b h) = min (ball.speed b * speedIncrement b) (maxSpeed b)"
  by (simp add: applyPaddleHit_as_increaseSpeed increaseSpeed_speed)

lemma applyPaddleHit_inv:
  assumes "ball_constants b" "0 < ball.speed b"
  shows "ball_inv (applyPaddleHit b h)"
proof -
  let ?m = "b\<lparr>velocityX := sgn (- velocityX b) * velocityMagnitude b * cos (h * maxBounceAngle b),
            velocityY := velocityMagnitude b * sin (h * maxBounceAngle b)\<rparr>"
  have "ball_constants ?m" "0 < ball.speed ?m"
    using assms by (simp_all add: ball_constants_def)
  then have "ball_inv (increaseSpeed ?m)" by (rule increaseSpeed_inv)
  then show ?thesis
    by (simp add: applyPaddleHit_as_increaseSpeed ball_inv_def ball_constants_def velocityMagnitude_def)
qed

lemma magnitude_pos: "velocityX b \<noteq> 0 \<or> velocityY b \<noteq> 0 \<Longrightarrow> 0 < velocityMagnitude b"
  using sqrt_sum_pos [of "velocityX b" "velocityY b"]
  by (simp add: velocityMagnitude_def power2_eq_square)

lemma rebuilt_magnitude:
  fixes s M c d :: real
  assumes "s * s = 1" "0 \<le> M"
  shows "sqrt (s * M * cos a * (s * M * cos a) + M * sin a * (M * sin a)) = M"
proof -
  have one: "cos a * cos a + sin a * sin a = 1"
    using sin_cos_squared_add2 [of a] by (simp add: power2_eq_square)
  have "s * M * cos a * (s * M * cos a) = (s * s) * (M * M * (cos a * cos a))"
    by (simp only: mult_ac)
  then have "s * M * cos a * (s * M * cos a) + M * sin a * (M * sin a)
      = M * M * (cos a * cos a) + M * M * (sin a * sin a)"
    using assms(1) by (simp add: mult_ac)
  also have "\<dots> = M * M * (cos a * cos a + sin a * sin a)"
    by (simp only: distrib_left)
  also have "\<dots> = M * M" by (simp only: one mult_1_right)
  finally show ?thesis using assms(2) by simp
qed

lemma applyPaddleHit_rebound:
  "applyPaddleHit b h = (increaseSpeed (rebound b h))\<lparr>ball.x := ball.x b + sgn (- velocityX b) * 2\<rparr>"
  by (simp add: applyPaddleHit_as_increaseSpeed rebound_def)

lemma rebound_fields:
  "velocityX (rebound b h) = sgn (- velocityX b) * velocityMagnitude b * cos (h * maxBounceAngle b)"
  "velocityY (rebound b h) = velocityMagnitude b * sin (h * maxBounceAngle b)"
  "ball.speed (rebound b h) = ball.speed b"
  "speedIncrement (rebound b h) = speedIncrement b"
  "maxSpeed (rebound b h) = maxSpeed b"
  by (simp_all add: rebound_def)

lemma rebound_magnitude:
  assumes "velocityX b \<noteq> 0"
  shows "velocityMagnitude (rebound b h) = velocityMagnitude b"
proof -
  have M: "0 < velocityMagnitude b" using assms by (simp add: magnitude_pos)
  have ss: "sgn (- velocityX b) * sgn (- velocityX b) = 1" using assms by (simp add: sgn_if)
  show ?thesis
    unfolding velocityMagnitude_def [of "rebound b h"] rebound_fields
    using rebuilt_magnitude [OF ss, of "velocityMagnitude b" "h * maxBounceAngle b"] M by simp
qed

lemma rebound_nonzero:
  assumes "velocityX b \<noteq> 0"
  shows "velocityX (rebound b h) \<noteq> 0 \<or> velocityY (rebound b h) \<noteq> 0"
proof -
  have M: "0 < velocityMagnitude b" using assms by (simp add: magnitude_pos)
  have "cos (h * maxBounceAngle b) \<noteq> 0 \<or> sin (h * maxBounceAngle b) \<noteq> 0"
    using sin_cos_squared_add2 [of "h * maxBounceAngle b"]
    by (cases "cos (h * maxBounceAngle b) = 0") auto
  then show ?thesis using M assms by (auto simp: rebound_fields sgn_if)
qed

lemma applyPaddleHit_velocity:
  assumes "velocityX b \<noteq> 0"
  shows "velocityX (applyPaddleHit b h) =
           ball.speed (applyPaddleHit b h) * (sgn (- velocityX b) * cos (h * maxBounceAngle b))"
    and "velocityY (applyPaddleHit b h) =
           ball.speed (applyPaddleHit b h) * sin (h * maxBounceAngle b)"
proof -
  have M: "0 < velocityMagnitude b" using assms by (simp add: magnitude_pos)
  note nz = rebound_nonzero [OF assms, of h]
  note mag = rebound_magnitude [OF assms, of h]
  have vx: "velocityX (applyPaddleHit b h) = velocityX (increaseSpeed (rebound b h))"
    and vy: "velocityY (applyPaddleHit b h) = velocityY (increaseSpeed (rebound b h))"
    and sp: "ball.speed (applyPaddleHit b h) = ball.speed (increaseSpeed (rebound b h))"
    by (simp_all add: applyPaddleHit_rebound)
  show "velocityX (applyPaddleHit b h) =
           ball.speed (applyPaddleHit b h) * (sgn (- velocityX b) * cos (h * maxBounceAngle b))"
    unfolding vx sp increaseSpeed_velocity(1) [OF nz] mag rebound_fields using M by simp
  show "velocityY (applyPaddleHit b h) =
           ball.speed (applyPaddleHit b h) * sin (h * maxBounceAngle b)"
    unfolding vy sp increaseSpeed_velocity(2) [OF nz] mag rebound_fields using M by simp
qed

lemma cos_bounce_ge_half:
  fixes h :: real
  assumes "- 1 \<le> h" "h \<le> 1"
  shows "1 / 2 \<le> cos (h * (pi / 3))"
proof -
  have b: "\<bar>h * (pi / 3)\<bar> \<le> pi / 3" using assms by (simp add: abs_mult abs_le_iff) 
  have "cos (pi / 3) \<le> cos \<bar>h * (pi / 3)\<bar>"
    by (rule cos_monotone_0_pi_le) (use b in auto)
  moreover have "cos \<bar>h * (pi / 3)\<bar> = cos (h * (pi / 3))" by (rule cos_abs_real)
  ultimately show ?thesis by (simp only: cos_60)
qed

lemma magnitude_horizontal: "velocityY b = 0 \<Longrightarrow> velocityMagnitude b = \<bar>velocityX b\<bar>"
  by (simp add: velocityMagnitude_def)

lemma ballMovingRight_inv: "ball_inv ballMovingRight"
proof -
  have "velocityMagnitude ballMovingRight = 300"
    using magnitude_horizontal [of ballMovingRight] by (simp add: ballMovingRight_def)
  then show ?thesis by (simp add: ball_inv_def ball_constants_def ballMovingRight_def)
qed

lemma setRandomVelocity_inv:
  assumes "ball_constants b" "0 < ball.speed b" "ball.speed b \<le> maxSpeed b"
  shows "ball_inv (setRandomVelocity b r1 r2)"
  using assms by (simp add: ball_inv_def setRandomVelocity_magnitude setRandomVelocity_fields)

lemma Ball_new_inv: "ball_inv (Ball_new x0 y0 cw ch r1 r2)"
  unfolding Ball_new_def by (rule setRandomVelocity_inv) (simp_all add: ball_constants_def)

lemma Ball_reset_inv: "ball_constants b \<Longrightarrow> ball_inv (Ball_reset b x0 y0 r1 r2)"
  unfolding Ball_reset_def by (rule setRandomVelocity_inv) (simp_all add: ball_constants_def)

lemma Ball_update_inv: "ball_inv b \<Longrightarrow> ball_inv (Ball_update b dt)"
  by (simp add: ball_inv_def ball_constants_def Ball_update_def velocityMagnitude_def)

lemma checkWallCollision_inv: "ball_inv b \<Longrightarrow> ball_inv (fst (checkWallCollision b))"
  by (simp add: ball_inv_def ball_constants_def checkWallCollision_def Let_def bounceDown_def
      bounceUp_def velocityMagnitude_def)

lemma ball_invD:
  assumes "ball_inv b"
  shows "ball_constants b" and "0 < ball.speed b" and "ball.speed b \<le> maxSpeed b"
    and "velocityMagnitude b = ball.speed b"
  using assms by (simp_all add: ball_inv_def)

lemma ball_step_inv:
  assumes inv: "ball_inv b"
  shows "ball_inv (ball_step b op)"
proof (cases op)
  case (SetRandomVelocity r1 r2)
  then show ?thesis using setRandomVelocity_inv [OF ball_invD(1-3) [OF inv]] by simp
next
  case (Update dt)
  then show ?thesis using Ball_update_inv [OF inv] by simp
next
  case CheckWallCollision
  then show ?thesis using checkWallCollision_inv [OF inv] by simp
next
  case (ApplyPaddleHit h)
  then show ?thesis using applyPaddleHit_inv [OF ball_invD(1,2) [OF inv]] by simp
next
  case IncreaseSpeed
  then show ?thesis using increaseSpeed_inv [OF ball_invD(1,2) [OF inv]] by simp
next
  case (Reset x0 y0 r1 r2)
  then show ?thesis using Ball_reset_inv [OF ball_invD(1) [OF inv]] by simp
qed

lemma ball_steps_inv: "ball_inv b \<Longrightarrow> ball_inv (foldl ball_step b ops)"
  by (induction ops arbitrary: b) (simp_all add: ball_step_inv)

lemma hit_inv: "ball_inv b \<Longrightarrow> ball_inv (applyPaddleHit b h)"
  using applyPaddleHit_inv ball_invD(1,2) by blast

lemma hits_inv: "ball_inv b \<Longrightarrow> ball_inv (foldl applyPaddleHit b hs)"
  by (induction hs arbitrary: b) (simp_all add: hit_inv)

lemma hits_speed_mono: "ball_inv b \<Longrightarrow> ball.speed b \<le> ball.speed (foldl applyPaddleHit b hs)"
proof (induction hs arbitrary: b)
  case Nil
  then show ?case by simp
next
  case (Cons h hs)
  have "ball.speed b \<le> ball.speed (applyPaddleHit b h)"
    using speed_grows(1) [OF Cons.prems] by (simp add: applyPaddleHit_speed)
  moreover have "ball_inv (applyPaddleHit b h)"
    using Cons.prems by (rule hit_inv)
  ultimately show ?case using Cons.IH [of "applyPaddleHit b h"] by simp
qed

lemma hits_maxSpeed: "maxSpeed (foldl applyPaddleHit b hs) = maxSpeed b"
  by (induction hs arbitrary: b) (simp_all add: applyPaddleHit_rebound increaseSpeed_fields rebound_fields)

lemma checkWallCollision_cases:
  "checkWallCollision b =
     (if bottomWallCrossed (afterTopCheck b) then (bounceUp (afterTopCheck b), True)
      else (afterTopCheck b, topWallCrossed b))"
  by (simp add: checkWallCollision_def afterTopCheck_def Let_def)

lemma afterTopCheck_fields:
  "radius (afterTopCheck b) = radius b"
  "ball.canvasHeight (afterTopCheck b) = ball.canvasHeight b"
  "ball.y (afterTopCheck b) = (if topWallCrossed b then radius b else ball.y b)"
  "velocityY (afterTopCheck b) = (if topWallCrossed b then \<bar>velocityY b\<bar> else velocityY b)"
  by (simp_all add: afterTopCheck_def bounceDown_def)

section \<open>Lemmas on the paddle\<close>


lemma checkPaddleCollision_range:
  assumes "paddle.height p \<noteq> 0"
  shows "checkPaddleCollision b p =
           (if boxesOverlap (Ball_getBounds b) (Paddle_getBounds p)
            then Some (Num (max (- 1) (min 1
                   ((ball.y b - (paddle.y p + paddle.height p / 2)) / (paddle.height p / 2)))))
            else None)"
  using assms by (simp add: checkPaddleCollision_def js_divide_def Let_def)

lemma checkPaddleCollision_flat:
  assumes "paddle.height p = 0"
  shows "checkPaddleCollision b p =
           (if boxesOverlap (Ball_getBounds b) (Paddle_getBounds p)
            then Some (if paddle.y p < ball.y b then Num 1
                       else if ball.y b < paddle.y p then Num (- 1) else NaN)
            else None)"
  using assms by (simp add: checkPaddleCollision_def js_divide_def Let_def)



lemma flat_paddle_hit_point:
  "boxesOverlap (Ball_getBounds ballAtPaddle) (Paddle_getBounds flatPaddle) \<and>
   checkPaddleCollision ballAtPaddle flatPaddle = Some NaN"
  by (simp add: checkPaddleCollision_def boxesOverlap_def Ball_getBounds_def Paddle_getBounds_def
      js_divide_def ballAtPaddle_def flatPaddle_def Paddle_new_def Let_def)

lemma enforceBounds_range:
  assumes "paddle.height p \<le> paddle.canvasHeight p"
  shows "0 \<le> paddle.y (enforceBounds p)"
    and "paddle.y (enforceBounds p) \<le> paddle.canvasHeight p - paddle.height p"
  using assms by (simp_all add: enforceBounds_def)

lemma enforceBounds_fields:
  "paddle.height (enforceBounds p) = paddle.height p"
  "paddle.canvasHeight (enforceBounds p) = paddle.canvasHeight p"
  by (simp_all add: enforceBounds_def)

lemma Paddle_update_shape:
  assumes "\<not> isAI p"
  shows "\<exists>q. Paddle_update p dt ih = enforceBounds q \<and>
              paddle.height q = paddle.height p \<and> paddle.canvasHeight q = paddle.canvasHeight p \<and>
              paddle.x q = paddle.x p \<and> paddle.width q = paddle.width p"
  unfolding Paddle_update_def Let_def
  apply (simp only: assms if_False)
  apply (rule exI, rule conjI, rule refl)
  apply simp
  done

lemma Paddle_updateAI_shape:
  assumes "isAI p"
  shows "\<exists>q. Paddle_updateAI p b dt = enforceBounds q \<and>
              paddle.height q = paddle.height p \<and> paddle.canvasHeight q = paddle.canvasHeight p \<and>
              paddle.x q = paddle.x p \<and> paddle.width q = paddle.width p"
  unfolding Paddle_updateAI_def Let_def
  apply (simp only: assms not_True_eq_False if_False)
  apply (rule exI, rule conjI, rule refl)
  apply simp
  done

lemma Paddle_update_range:
  assumes "paddle.height p \<le> paddle.canvasHeight p" and "\<not> isAI p"
  shows "0 \<le> paddle.y (Paddle_update p dt ih)"
    and "paddle.y (Paddle_update p dt ih) \<le> paddle.canvasHeight p - paddle.height p"
proof -
  obtain q where q: "Paddle_update p dt ih = enforceBounds q"
    "paddle.height q = paddle.height p" "paddle.canvasHeight q = paddle.canvasHeight p"
    using Paddle_update_shape [OF assms(2)] by blast
  have "paddle.height q \<le> paddle.canvasHeight q" using assms(1) q by simp
  from enforceBounds_range [OF this]
  show "0 \<le> paddle.y (Paddle_update p dt ih)"
    and "paddle.y (Paddle_update p dt ih) \<le> paddle.canvasHeight p - paddle.height p"
    using q by simp_all
qed

lemma Paddle_updateAI_range:
  assumes "paddle.height p \<le> paddle.canvasHeight p" and "isAI p"
  shows "0 \<le> paddle.y (Paddle_updateAI p b dt)"
    and "paddle.y (Paddle_updateAI p b dt) \<le> paddle.canvasHeight p - paddle.height p"
proof -
  obtain q where q: "Paddle_updateAI p b dt = enforceBounds q"
    "paddle.height q = paddle.height p" "paddle.canvasHeight q = paddle.canvasHeight p"
    using Paddle_updateAI_shape [OF assms(2)] by blast
  have "paddle.height q \<le> paddle.canvasHeight q" using assms(1) q by simp
  from enforceBounds_range [OF this]
  show "0 \<le> paddle.y (Paddle_updateAI p b dt)"
    and "paddle.y (Paddle_updateAI p b dt) \<le> paddle.canvasHeight p - paddle.height p"
    using q by simp_all
qed

lemma Paddle_wrong_role:
  "isAI p \<Longrightarrow> Paddle_update p dt ih = p"
  "\<not> isAI p \<Longrightarrow> Paddle_updateAI p b dt = p"
  by (simp_all add: Paddle_update_def Paddle_updateAI_def)

section \<open>Lemmas on the game\<close>

lemma not_GAME_OVER: "(s \<noteq> GAME_OVER) = (s = PLAYING)"
  by (cases s) simp_all

lemma paddleCheck_total:
  assumes "paddle.height p \<noteq> 0"
  shows "\<exists>b s. paddleCheck g p = Some (g\<lparr>ball := b, played := s\<rparr>)"
proof (cases "boxesOverlap (Ball_getBounds (ball g)) (Paddle_getBounds p)")
  case True
  then show ?thesis
    by (simp add: paddleCheck_def checkPaddleCollision_range [OF assms] play_def) blast
next
  case False
  then have "paddleCheck g p = Some (g\<lparr>ball := ball g, played := played g\<rparr>)"
    by (simp add: paddleCheck_def checkPaddleCollision_range [OF assms])
  then show ?thesis by blast
qed

lemma paddleCheck_miss:
  assumes "ball.x (ball g) + radius (ball g) < paddle.x p"
  shows "paddleCheck g p = Some g"
  using assms
  by (simp add: paddleCheck_def checkPaddleCollision_def boxesOverlap_def Ball_getBounds_def
      Paddle_getBounds_def Let_def)

lemma checkWallCollision_fields:
  "ball.x (fst (checkWallCollision b)) = ball.x b"
  "radius (fst (checkWallCollision b)) = radius b"
  "initialSpeed (fst (checkWallCollision b)) = initialSpeed b"
  by (simp_all add: checkWallCollision_def Let_def bounceDown_def bounceUp_def)

lemma checkCollisions_total:
  assumes "paddle.height (playerPaddle g) \<noteq> 0" and "paddle.height (aiPaddle g) \<noteq> 0"
  shows "\<exists>b s. checkCollisions g = Some (g\<lparr>ball := b, played := s\<rparr>)"
proof -
  obtain b0 hit where w: "checkWallCollision (ball g) = (b0, hit)" by (cases "checkWallCollision (ball g)")
  define g0 where "g0 = (if hit then play WallHitSound (g\<lparr>ball := b0\<rparr>) else g\<lparr>ball := b0\<rparr>)"
  have g0: "\<exists>s. g0 = g\<lparr>ball := b0, played := s\<rparr>"
  proof (cases hit)
    case True
    then have "g0 = g\<lparr>ball := b0, played := played g @ [WallHitSound]\<rparr>"
      by (simp add: g0_def play_def)
    then show ?thesis by blast
  next
    case False
    then have "g0 = g\<lparr>ball := b0, played := played g\<rparr>" by (simp add: g0_def)
    then show ?thesis by blast
  qed
  then obtain s0 where s0: "g0 = g\<lparr>ball := b0, played := s0\<rparr>" by blast
  have cc: "checkCollisions g =
      (case paddleCheck g0 (playerPaddle g0) of None \<Rightarrow> None | Some g1 \<Rightarrow> paddleCheck g1 (aiPaddle g1))"
    by (simp add: checkCollisions_def w g0_def Let_def)
  have h0: "paddle.height (playerPaddle g0) \<noteq> 0" using assms(1) s0 by simp
  obtain b1 s1 where p1: "paddleCheck g0 (playerPaddle g0) = Some (g0\<lparr>ball := b1, played := s1\<rparr>)"
    using paddleCheck_total [OF h0] by blast
  let ?g1 = "g0\<lparr>ball := b1, played := s1\<rparr>"
  have h1: "paddle.height (aiPaddle ?g1) \<noteq> 0" using assms(2) s0 by simp
  obtain b2 s2 where p2: "paddleCheck ?g1 (aiPaddle ?g1) = Some (?g1\<lparr>ball := b2, played := s2\<rparr>)"
    using paddleCheck_total [OF h1] by blast
  have p1': "paddleCheck (g\<lparr>ball := b0, played := s0\<rparr>) (playerPaddle g)
      = Some (g\<lparr>ball := b1, played := s1\<rparr>)"
    using p1 by (simp add: s0)
  have p2': "paddleCheck (g\<lparr>ball := b1, played := s1\<rparr>) (aiPaddle g)
      = Some (g\<lparr>ball := b2, played := s2\<rparr>)"
    using p2 by (simp add: s0)
  have "checkCollisions g = Some (g\<lparr>ball := b2, played := s2\<rparr>)"
    by (simp add: cc s0 p1' p2')
  then show ?thesis by blast
qed

lemma checkCollisions_miss:
  assumes "ball.x (ball g) + radius (ball g) < paddle.x (playerPaddle g)"
      and "ball.x (ball g) + radius (ball g) < paddle.x (aiPaddle g)"
  shows "\<exists>b s. checkCollisions g = Some (g\<lparr>ball := b, played := s\<rparr>) \<and>
           ball.x b = ball.x (ball g) \<and> radius b = radius (ball g) \<and>
           initialSpeed b = initialSpeed (ball g)"
proof -
  obtain b0 hit where w: "checkWallCollision (ball g) = (b0, hit)" by (cases "checkWallCollision (ball g)")
  have b0: "ball.x b0 = ball.x (ball g)" "radius b0 = radius (ball g)"
    "initialSpeed b0 = initialSpeed (ball g)"
    using checkWallCollision_fields [of "ball g"] by (simp_all add: w)
  define g0 where "g0 = (if hit then play WallHitSound (g\<lparr>ball := b0\<rparr>) else g\<lparr>ball := b0\<rparr>)"
  have "\<exists>s. g0 = g\<lparr>ball := b0, played := s\<rparr>"
  proof (cases hit)
    case True
    then have "g0 = g\<lparr>ball := b0, played := played g @ [WallHitSound]\<rparr>"
      by (simp add: g0_def play_def)
    then show ?thesis by blast
  next
    case False
    then have "g0 = g\<lparr>ball := b0, played := played g\<rparr>" by (simp add: g0_def)
    then show ?thesis by blast
  qed
  then obtain s0 where s0: "g0 = g\<lparr>ball := b0, played := s0\<rparr>" by blast
  have cc: "checkCollisions g =
      (case paddleCheck g0 (playerPaddle g0) of None \<Rightarrow> None | Some g1 \<Rightarrow> paddleCheck g1 (aiPaddle g1))"
    by (simp add: checkCollisions_def w g0_def Let_def)
  have m1: "ball.x (ball g0) + radius (ball g0) < paddle.x (playerPaddle g0)"
    and m2: "ball.x (ball g0) + radius (ball g0) < paddle.x (aiPaddle g0)"
    using assms b0 by (simp_all add: s0)
  have "checkCollisions g = Some g0"
    by (simp add: cc paddleCheck_miss [OF m1] paddleCheck_miss [OF m2])
  then show ?thesis using s0 b0 by blast
qed

lemma Ball_reset_fields:
  "ball.x (Ball_reset b x0 y0 r1 r2) = x0"
  "ball.y (Ball_reset b x0 y0 r1 r2) = y0"
  "ball.speed (Ball_reset b x0 y0 r1 r2) = initialSpeed b"
  "radius (Ball_reset b x0 y0 r1 r2) = radius b"
  "initialSpeed (Ball_reset b x0 y0 r1 r2) = initialSpeed b"
  by (simp_all add: Ball_reset_def setRandomVelocity_def Let_def)

lemma aiScores_fields:
  "aiScore (aiScores g) = aiScore g + 1"
  "playerScore (aiScores g) = playerScore g"
  "targetScore (aiScores g) = targetScore g"
  "game.width (aiScores g) = game.width g"
  "game.height (aiScores g) = game.height g"
  "inputHandler (aiScores g) = inputHandler g"
  "playerPaddle (aiScores g) = playerPaddle g"
  "aiPaddle (aiScores g) = aiPaddle g"
  "state (aiScores g) =
     (if targetScore g \<le> playerScore g \<or> targetScore g \<le> aiScore g + 1 then GAME_OVER else state g)"
  "ball (aiScores g) =
     Ball_reset (ball g) (game.width g / 2) (game.height g / 2)
       (randomValues g (randomCalls g)) (randomValues g (randomCalls g + 1))"
  by (simp_all add: aiScores_def checkWinCondition_def resetBall_def play_def)

lemma playerScores_fields:
  "playerScore (playerScores g) = playerScore g + 1"
  "aiScore (playerScores g) = aiScore g"
  "targetScore (playerScores g) = targetScore g"
  "game.width (playerScores g) = game.width g"
  "game.height (playerScores g) = game.height g"
  "inputHandler (playerScores g) = inputHandler g"
  "playerPaddle (playerScores g) = playerPaddle g"
  "aiPaddle (playerScores g) = aiPaddle g"
  "state (playerScores g) =
     (if targetScore g \<le> playerScore g + 1 \<or> targetScore g \<le> aiScore g then GAME_OVER else state g)"
  "ball (playerScores g) =
     Ball_reset (ball g) (game.width g / 2) (game.height g / 2)
       (randomValues g (randomCalls g)) (randomValues g (randomCalls g + 1))"
  by (simp_all add: playerScores_def checkWinCondition_def resetBall_def play_def)

lemma checkScoring_cases:
  "checkScoring g =
     (if exitedLeft g then (if exitedRight g then playerScores (aiScores g) else aiScores g)
      else (if exitedRight g then playerScores g else g))"
  by (simp add: checkScoring_def Let_def exitedLeft_def exitedRight_def aiScores_fields)

lemma exits_exclusive:
  "- 2 * radius (ball g) \<le> game.width g \<Longrightarrow> \<not> (exitedLeft g \<and> exitedRight g)"
  by (auto simp: exitedLeft_def exitedRight_def)

lemma checkScoring_scores:
  "aiScore (checkScoring g) = aiScore g + (if exitedLeft g then 1 else 0)"
  "playerScore (checkScoring g) = playerScore g + (if exitedRight g then 1 else 0)"
  by (simp_all add: checkScoring_cases aiScores_fields playerScores_fields)

lemma checkScoring_frame:
  "targetScore (checkScoring g) = targetScore g"
  "game.width (checkScoring g) = game.width g"
  "game.height (checkScoring g) = game.height g"
  "inputHandler (checkScoring g) = inputHandler g"
  "playerPaddle (checkScoring g) = playerPaddle g"
  "aiPaddle (checkScoring g) = aiPaddle g"
  by (simp_all add: checkScoring_cases aiScores_fields playerScores_fields)

lemma checkScoring_ball:
  assumes "exitedLeft g \<or> exitedRight g"
  shows "ball.x (ball (checkScoring g)) = game.width g / 2"
    and "ball.y (ball (checkScoring g)) = game.height g / 2"
    and "ball.speed (ball (checkScoring g)) = initialSpeed (ball g)"
    and "radius (ball (checkScoring g)) = radius (ball g)"
  using assms
  by (auto simp: checkScoring_cases aiScores_fields playerScores_fields Ball_reset_fields)

lemma checkScoring_idle: "\<not> exitedLeft g \<Longrightarrow> \<not> exitedRight g \<Longrightarrow> checkScoring g = g"
  by (simp add: checkScoring_cases)

lemma aiScores_ok: "score_state_ok g \<Longrightarrow> score_state_ok (aiScores g)"
  by (auto simp: score_state_ok_def aiScores_fields not_GAME_OVER [symmetric])

lemma playerScores_ok: "score_state_ok g \<Longrightarrow> score_state_ok (playerScores g)"
  by (auto simp: score_state_ok_def playerScores_fields not_GAME_OVER [symmetric])

lemma checkScoring_ok: "score_state_ok g \<Longrightarrow> score_state_ok (checkScoring g)"
  by (simp add: checkScoring_cases aiScores_ok playerScores_ok)

lemma Game_reset_fields:
  "state (Game_reset g) = PLAYING"
  "playerScore (Game_reset g) = 0"
  "aiScore (Game_reset g) = 0"
  "targetScore (Game_reset g) = targetScore g"
  "paddle.height (playerPaddle (Game_reset g)) = paddle.height (playerPaddle g)"
  "paddle.height (aiPaddle (Game_reset g)) = paddle.height (aiPaddle g)"
  by (simp_all add: Game_reset_def resetBall_def Paddle_reset_def Let_def)

lemma Game_reset_inv: "game_inv g \<Longrightarrow> game_inv (Game_reset g)"
  by (simp add: game_inv_def score_state_ok_def Game_reset_fields)

lemma Game_new_inv: "game_inv (Game_new w h rnd)"
  by (simp add: game_inv_def score_state_ok_def Game_new_def Paddle_new_def Let_def)

lemma enforceBounds_frame:
  "paddle.x (enforceBounds p) = paddle.x p"
  "paddle.width (enforceBounds p) = paddle.width p"
  by (simp_all add: enforceBounds_def)

lemma Paddle_update_fields:
  "paddle.x (Paddle_update p dt ih) = paddle.x p"
  "paddle.height (Paddle_update p dt ih) = paddle.height p"
proof -
  have "paddle.x (Paddle_update p dt ih) = paddle.x p \<and>
        paddle.height (Paddle_update p dt ih) = paddle.height p"
  proof (cases "isAI p")
    case True
    then show ?thesis by (simp add: Paddle_wrong_role)
  next
    case False
    then obtain q where "Paddle_update p dt ih = enforceBounds q"
      "paddle.height q = paddle.height p" "paddle.x q = paddle.x p"
      using Paddle_update_shape [of p dt ih] by blast
    then show ?thesis by (simp add: enforceBounds_frame enforceBounds_fields)
  qed
  then show "paddle.x (Paddle_update p dt ih) = paddle.x p"
    and "paddle.height (Paddle_update p dt ih) = paddle.height p" by simp_all
qed

lemma Paddle_updateAI_fields:
  "paddle.x (Paddle_updateAI p b dt) = paddle.x p"
  "paddle.height (Paddle_updateAI p b dt) = paddle.height p"
proof -
  have "paddle.x (Paddle_updateAI p b dt) = paddle.x p \<and>
        paddle.height (Paddle_updateAI p b dt) = paddle.height p"
  proof (cases "isAI p")
    case False
    then show ?thesis by (simp add: Paddle_wrong_role)
  next
    case True
    then obtain q where "Paddle_updateAI p b dt = enforceBounds q"
      "paddle.height q = paddle.height p" "paddle.x q = paddle.x p"
      using Paddle_updateAI_shape [of p b dt] by blast
    then show ?thesis by (simp add: enforceBounds_frame enforceBounds_fields)
  qed
  then show "paddle.x (Paddle_updateAI p b dt) = paddle.x p"
    and "paddle.height (Paddle_updateAI p b dt) = paddle.height p" by simp_all
qed

lemma updatePlaying_afterMotion:
  "updatePlaying g dt = map_option checkScoring (checkCollisions (afterMotion g dt))"
  by (simp add: updatePlaying_def afterMotion_def Let_def)

lemma afterMotion_fields:
  "state (afterMotion g dt) = state g"
  "aiScore (afterMotion g dt) = aiScore g"
  "playerScore (afterMotion g dt) = playerScore g"
  "targetScore (afterMotion g dt) = targetScore g"
  "game.width (afterMotion g dt) = game.width g"
  "game.height (afterMotion g dt) = game.height g"
  "inputHandler (afterMotion g dt) = inputHandler g"
  "paddle.x (playerPaddle (afterMotion g dt)) = paddle.x (playerPaddle g)"
  "paddle.x (aiPaddle (afterMotion g dt)) = paddle.x (aiPaddle g)"
  "paddle.height (playerPaddle (afterMotion g dt)) = paddle.height (playerPaddle g)"
  "paddle.height (aiPaddle (afterMotion g dt)) = paddle.height (aiPaddle g)"
  "ball.x (ball (afterMotion g dt)) = ball.x (ball g) + velocityX (ball g) * dt"
  "radius (ball (afterMotion g dt)) = radius (ball g)"
  "initialSpeed (ball (afterMotion g dt)) = initialSpeed (ball g)"
  by (simp_all add: afterMotion_def Paddle_update_fields Paddle_updateAI_fields Ball_update_def)

lemma updatePlaying_total:
  assumes "paddle.height (playerPaddle g) \<noteq> 0" and "paddle.height (aiPaddle g) \<noteq> 0"
  shows "\<exists>b s. updatePlaying g dt = Some (checkScoring ((afterMotion g dt)\<lparr>ball := b, played := s\<rparr>))"
proof -
  have "paddle.height (playerPaddle (afterMotion g dt)) \<noteq> 0"
    "paddle.height (aiPaddle (afterMotion g dt)) \<noteq> 0"
    using assms by (simp_all add: afterMotion_fields)
  from checkCollisions_total [OF this]
  obtain b s where "checkCollisions (afterMotion g dt) = Some ((afterMotion g dt)\<lparr>ball := b, played := s\<rparr>)"
    by blast
  then show ?thesis by (simp add: updatePlaying_afterMotion) blast
qed

lemma updatePlaying_step:
  assumes inv: "game_inv g" and playing: "state g = PLAYING"
  shows "\<exists>g1. updatePlaying g dt = Some g1 \<and> game_inv g1 \<and>
           targetScore g1 = targetScore g \<and>
           aiScore g \<le> aiScore g1 \<and> aiScore g1 \<le> aiScore g + 1 \<and>
           playerScore g \<le> playerScore g1 \<and> playerScore g1 \<le> playerScore g + 1"
proof -
  have h: "paddle.height (playerPaddle g) \<noteq> 0" "paddle.height (aiPaddle g) \<noteq> 0"
    and ok: "score_state_ok g" and t: "0 < targetScore g"
    using inv by (simp_all add: game_inv_def)
  obtain b s where u: "updatePlaying g dt = Some (checkScoring ((afterMotion g dt)\<lparr>ball := b, played := s\<rparr>))"
    using updatePlaying_total [OF h] by blast
  let ?m = "(afterMotion g dt)\<lparr>ball := b, played := s\<rparr>"
  have m: "state ?m = state g" "aiScore ?m = aiScore g" "playerScore ?m = playerScore g"
    "targetScore ?m = targetScore g"
    "paddle.height (playerPaddle ?m) = paddle.height (playerPaddle g)"
    "paddle.height (aiPaddle ?m) = paddle.height (aiPaddle g)"
    by (simp_all add: afterMotion_fields)
  have "score_state_ok ?m" using ok by (simp add: score_state_ok_def m)
  then have ok1: "score_state_ok (checkScoring ?m)" by (rule checkScoring_ok)
  have "game_inv (checkScoring ?m)"
    using ok1 t h by (simp add: game_inv_def checkScoring_frame m afterMotion_fields)
  moreover have "targetScore (checkScoring ?m) = targetScore g"
    by (simp add: checkScoring_frame m)
  moreover have "aiScore g \<le> aiScore (checkScoring ?m)" "aiScore (checkScoring ?m) \<le> aiScore g + 1"
    "playerScore g \<le> playerScore (checkScoring ?m)" "playerScore (checkScoring ?m) \<le> playerScore g + 1"
    by (simp_all add: checkScoring_scores m)
  ultimately show ?thesis using u by blast
qed

lemma update_PLAYING:
  assumes "state g = PLAYING" and "updatePlaying g dt = Some g1"
  shows "update g dt = Some (if state g1 = GAME_OVER then updateGameOver g1 else g1)"
  using assms by (simp add: update_def)

lemma update_GAME_OVER:
  assumes "state g = GAME_OVER"
  shows "update g dt = Some (if restartRequested g then Game_reset g else g)"
  using assms by (simp add: update_def updateGameOver_def)

lemma updateGameOver_inv: "game_inv g \<Longrightarrow> game_inv (updateGameOver g)"
  by (simp add: updateGameOver_def Game_reset_inv)

lemma update_inv:
  assumes inv: "game_inv g"
  shows "\<exists>g'. update g dt = Some g' \<and> game_inv g'"
proof (cases "state g")
  case PLAYING
  obtain g1 where g1: "updatePlaying g dt = Some g1" "game_inv g1"
    using updatePlaying_step [OF inv PLAYING] by blast
  show ?thesis
    using update_PLAYING [OF PLAYING g1(1)] g1(2) updateGameOver_inv [OF g1(2)] by simp
next
  case GAME_OVER
  show ?thesis
    using update_GAME_OVER [OF GAME_OVER] inv Game_reset_inv [OF inv] by simp
qed

lemma playing_below_target:
  assumes "game_inv g" and "state g = PLAYING"
  shows "aiScore g < targetScore g" and "playerScore g < targetScore g"
  using assms by (auto simp: game_inv_def score_state_ok_def)

lemma handleResize_inv: "game_inv g \<Longrightarrow> game_inv (handleResize g w h)"
  by (simp add: game_inv_def score_state_ok_def handleResize_def Let_def)

lemma step_inv:
  assumes "game_inv g"
  shows "\<exists>g'. step g e = Some g' \<and> game_inv g'"
proof (cases e)
  case (Frame ih dt)
  have "game_inv (g\<lparr>inputHandler := ih\<rparr>)"
    using assms by (simp add: game_inv_def score_state_ok_def)
  then show ?thesis using Frame update_inv [of "g\<lparr>inputHandler := ih\<rparr>" dt] by simp
next
  case (Resize w h)
  then show ?thesis using handleResize_inv [OF assms] by simp
qed

lemma run_inv: "game_inv g \<Longrightarrow> \<exists>g'. run g es = Some g' \<and> game_inv g'"
proof (induction es arbitrary: g)
  case Nil
  then show ?case by simp
next
  case (Cons e es)
  obtain g1 where g1: "step g e = Some g1" "game_inv g1"
    using step_inv [OF Cons.prems] by blast
  show ?case using Cons.IH [OF g1(2)] g1(1) by simp
qed

lemma tick_left_exit:
  assumes playing: "state g = PLAYING"
    and exit: "ball.x (ball g) + velocityX (ball g) * dt + radius (ball g) < 0"
    and px: "0 \<le> paddle.x (playerPaddle g)" and ax: "0 \<le> paddle.x (aiPaddle g)"
    and wide: "- 2 * radius (ball g) \<le> game.width g"
  shows "\<exists>g1. updatePlaying g dt = Some g1 \<and>
           aiScore g1 = aiScore g + 1 \<and> playerScore g1 = playerScore g \<and>
           ball.x (ball g1) = game.width g / 2 \<and> ball.y (ball g1) = game.height g / 2 \<and>
           ball.speed (ball g1) = initialSpeed (ball g) \<and>
           state g1 = (if targetScore g \<le> playerScore g \<or> targetScore g \<le> aiScore g + 1
                       then GAME_OVER else PLAYING) \<and>
           arena g1 = arena g"
proof -
  let ?m = "afterMotion g dt"
  have m1: "ball.x (ball ?m) + radius (ball ?m) < paddle.x (playerPaddle ?m)"
    and m2: "ball.x (ball ?m) + radius (ball ?m) < paddle.x (aiPaddle ?m)"
    using exit px ax by (simp_all add: afterMotion_fields)
  obtain b s where c: "checkCollisions ?m = Some (?m\<lparr>ball := b, played := s\<rparr>)"
    and b: "ball.x b = ball.x (ball ?m)" "radius b = radius (ball ?m)"
      "initialSpeed b = initialSpeed (ball ?m)"
    using checkCollisions_miss [OF m1 m2] by blast
  let ?c = "?m\<lparr>ball := b, played := s\<rparr>"
  have l: "exitedLeft ?c" using exit by (simp add: exitedLeft_def b afterMotion_fields)
  have r: "\<not> exitedRight ?c"
    using exit wide by (simp add: exitedRight_def b afterMotion_fields)
  have u: "updatePlaying g dt = Some (aiScores ?c)"
    by (simp add: updatePlaying_afterMotion c checkScoring_cases l r)
  have "aiScore (aiScores ?c) = aiScore g + 1" "playerScore (aiScores ?c) = playerScore g"
    "state (aiScores ?c) = (if targetScore g \<le> playerScore g \<or> targetScore g \<le> aiScore g + 1
                       then GAME_OVER else PLAYING)"
    using playing by (simp_all add: aiScores_fields afterMotion_fields)
  moreover have "ball.x (ball (aiScores ?c)) = game.width g / 2"
    "ball.y (ball (aiScores ?c)) = game.height g / 2"
    "ball.speed (ball (aiScores ?c)) = initialSpeed (ball g)"
    by (simp_all add: aiScores_fields Ball_reset_fields afterMotion_fields b)
  moreover have "arena (aiScores ?c) = arena g"
    by (simp add: arena_def aiScores_fields Ball_reset_fields afterMotion_fields b)
  ultimately show ?thesis using u by blast
qed

lemma scenario1_fields:
  "state (scenario1 H rnd ih) = PLAYING"
  "aiScore (scenario1 H rnd ih) = 0"
  "playerScore (scenario1 H rnd ih) = 0"
  "targetScore (scenario1 H rnd ih) = 10"
  "game.width (scenario1 H rnd ih) = 800"
  "game.height (scenario1 H rnd ih) = H"
  "ball.x (ball (scenario1 H rnd ih)) = 5"
  "ball.y (ball (scenario1 H rnd ih)) = H / 2"
  "velocityX (ball (scenario1 H rnd ih)) = - 50"
  "radius (ball (scenario1 H rnd ih)) = 10"
  "initialSpeed (ball (scenario1 H rnd ih)) = 300"
  "paddle.x (playerPaddle (scenario1 H rnd ih)) = 20"
  "paddle.x (aiPaddle (scenario1 H rnd ih)) = 772"
  by (simp_all add: scenario1_def Game_new_def Ball_new_def Paddle_new_def setRandomVelocity_def Let_def)

lemma scenario1_tick:
  assumes "5 + (- 50) * dt + 10 < 0"
  shows "\<exists>g'. update (scenario1 H rnd ih) dt = Some g' \<and>
           aiScore g' = 1 \<and> playerScore g' = 0 \<and>
           ball.x (ball g') = 400 \<and> ball.y (ball g') = H / 2 \<and>
           ball.speed (ball g') = 300 \<and> state g' = PLAYING"
proof -
  let ?g = "scenario1 H rnd ih"
  have "\<exists>g1. updatePlaying ?g dt = Some g1 \<and>
           aiScore g1 = aiScore ?g + 1 \<and> playerScore g1 = playerScore ?g \<and>
           ball.x (ball g1) = game.width ?g / 2 \<and> ball.y (ball g1) = game.height ?g / 2 \<and>
           ball.speed (ball g1) = initialSpeed (ball ?g) \<and>
           state g1 = (if targetScore ?g \<le> playerScore ?g \<or> targetScore ?g \<le> aiScore ?g + 1
                       then GAME_OVER else PLAYING) \<and>
           arena g1 = arena ?g"
    by (rule tick_left_exit) (use assms in \<open>simp_all add: scenario1_fields\<close>)
  then obtain g1 where g1: "updatePlaying ?g dt = Some g1" "aiScore g1 = 1" "playerScore g1 = 0"
    "ball.x (ball g1) = 400" "ball.y (ball g1) = H / 2" "ball.speed (ball g1) = 300"
    "state g1 = PLAYING"
    by (auto simp: scenario1_fields)
  have "update ?g dt = Some g1"
    using update_PLAYING [OF scenario1_fields(1) g1(1)] g1(7) by simp
  then show ?thesis using g1 by blast
qed

lemma Game_new_fields:
  "state (Game_new w h rnd) = PLAYING"
  "aiScore (Game_new w h rnd) = 0"
  "playerScore (Game_new w h rnd) = 0"
  "arena (Game_new w h rnd) = (w, h, 10, InputHandler_new, 20, w - 28, 10, 300)"
  by (simp_all add: arena_def Game_new_def Ball_new_def Paddle_new_def setRandomVelocity_def Let_def)

lemma no_restart_initially: "inputHandler g = InputHandler_new \<Longrightarrow> \<not> restartRequested g"
  by (simp add: restartRequested_def isKeyPressed_def isTouchActive_def InputHandler_new_def)

lemma ai_scoring_tick:
  assumes a: "arena g = (w, h, 10, InputHandler_new, 20, w - 28, 10, 300)"
    and w: "28 \<le> w" and playing: "state g = PLAYING" and p0: "playerScore g = 0"
    and below: "aiScore g < 10"
  shows "\<exists>g'. update (ballBeyondLeft g) 0 = Some g' \<and>
           aiScore g' = aiScore g + 1 \<and> playerScore g' = 0 \<and>
           state g' = (if aiScore g + 1 = 10 then GAME_OVER else PLAYING) \<and>
           arena g' = (w, h, 10, InputHandler_new, 20, w - 28, 10, 300)"
proof -
  let ?g = "ballBeyondLeft g"
  have f: "game.width g = w" "targetScore g = 10" "inputHandler g = InputHandler_new"
    "paddle.x (playerPaddle g) = 20" "paddle.x (aiPaddle g) = w - 28" "radius (ball g) = 10"
    using a by (simp_all add: arena_def)
  have a': "arena ?g = arena g" by (simp add: arena_def ballBeyondLeft_def)
  have s: "state ?g = PLAYING" "aiScore ?g = aiScore g" "playerScore ?g = 0"
    "targetScore ?g = 10" "game.width ?g = w" "radius (ball ?g) = 10"
    "paddle.x (playerPaddle ?g) = 20" "paddle.x (aiPaddle ?g) = w - 28"
    "ball.x (ball ?g) = - 11"
    using playing p0 f by (simp_all add: ballBeyondLeft_def)
  have "\<exists>g1. updatePlaying ?g 0 = Some g1 \<and>
           aiScore g1 = aiScore ?g + 1 \<and> playerScore g1 = playerScore ?g \<and>
           ball.x (ball g1) = game.width ?g / 2 \<and> ball.y (ball g1) = game.height ?g / 2 \<and>
           ball.speed (ball g1) = initialSpeed (ball ?g) \<and>
           state g1 = (if targetScore ?g \<le> playerScore ?g \<or> targetScore ?g \<le> aiScore ?g + 1
                       then GAME_OVER else PLAYING) \<and>
           arena g1 = arena ?g"
    by (rule tick_left_exit) (use w in \<open>simp_all add: s\<close>)
  then obtain g1 where g1: "updatePlaying ?g 0 = Some g1" "aiScore g1 = aiScore g + 1"
    "playerScore g1 = 0"
    "state g1 = (if 10 \<le> aiScore g + 1 then GAME_OVER else PLAYING)"
    "arena g1 = arena g"
    by (auto simp: s a')
  have "inputHandler g1 = InputHandler_new" using g1(5) a by (simp add: arena_def)
  then have "\<not> restartRequested g1" by (rule no_restart_initially)
  then have "update ?g 0 = Some g1"
    using update_PLAYING [OF s(1) g1(1)] by (simp add: updateGameOver_def)
  moreover have "state g1 = (if aiScore g + 1 = 10 then GAME_OVER else PLAYING)"
    using g1(4) below by auto
  ultimately show ?thesis using g1 a by auto
qed

lemma ai_scoring_ticks:
  assumes "28 \<le> w" and "n \<le> 10"
  shows "\<exists>g. aiScoringTicks n (Game_new w h rnd) = Some g \<and>
           aiScore g = n \<and> playerScore g = 0 \<and>
           state g = (if n = 10 then GAME_OVER else PLAYING) \<and>
           arena g = (w, h, 10, InputHandler_new, 20, w - 28, 10, 300)"
  using assms(2)
proof (induction n)
  case 0
  then show ?case by (simp add: Game_new_fields)
next
  case (Suc n)
  then obtain g where g: "aiScoringTicks n (Game_new w h rnd) = Some g" "aiScore g = n"
    "playerScore g = 0" "state g = PLAYING"
    "arena g = (w, h, 10, InputHandler_new, 20, w - 28, 10, 300)"
    by auto
  have "aiScore g < 10" using Suc.prems g(2) by simp
  from ai_scoring_tick [OF g(5) assms(1) g(4) g(3) this]
  obtain g' where "update (ballBeyondLeft g) 0 = Some g'" "aiScore g' = Suc n" "playerScore g' = 0"
    "state g' = (if Suc n = 10 then GAME_OVER else PLAYING)"
    "arena g' = (w, h, 10, InputHandler_new, 20, w - 28, 10, 300)"
    using g(2) by auto
  then show ?case using g(1) by simp
qed

lemma game_over_frozen:
  assumes "state g = GAME_OVER" and "inputHandler g = InputHandler_new"
  shows "update g dt = Some g"
  using update_GAME_OVER [OF assms(1)] no_restart_initially [OF assms(2)] by simp

section \<open>Lemmas on what the program reaches\<close>

lemma setupCanvas_width:
  assumes "0 \<le> iw"
  shows "- 20 \<le> fst (setupCanvas iw ih)"
proof -
  define m :: real where "m = (if iw < 768 then 20 else 40)"
  have w: "- 20 \<le> iw - m" using assms by (simp add: m_def)
  show ?thesis
  proof (cases "js_greater (js_divide (iw - m) (ih - m)) (3 / 2)")
    case False
    then have "fst (setupCanvas iw ih) = min (iw - m) 900"
      by (simp add: setupCanvas_def Let_def m_def)
    then show ?thesis using w by simp
  next
    case True
    then have eq: "fst (setupCanvas iw ih) = min (ih - m) 600 * (3 / 2)"
      by (simp add: setupCanvas_def Let_def m_def)
    consider "0 \<le> ih - m" | "ih - m < 0" by linarith
    then show ?thesis
    proof cases
      case 1
      then show ?thesis unfolding eq by (simp add: min_def)
    next
      case 2
      then have "(iw - m) / (ih - m) > 3 / 2" using True by (simp add: js_divide_def)
      then have "iw - m < 3 / 2 * (ih - m)" using 2 by (simp add: field_simps)
      then have "- 20 < (ih - m) * (3 / 2)" using w by simp
      moreover have "min (ih - m) 600 = ih - m" using 2 by simp
      ultimately show ?thesis unfolding eq by simp
    qed
  qed
qed

lemma setupCanvas_low: "setupCanvas 1000 50 = (15, 10)"
  by (simp add: setupCanvas_def js_divide_def Let_def)

lemma setupCanvas_short: "setupCanvas 1000 100 = (90, 60)"
  by (simp add: setupCanvas_def js_divide_def Let_def)

lemma setRandomVelocity_horizontal:
  assumes "0 \<le> r1" and "r1 < 1" and "ball.speed b \<noteq> 0"
  shows "velocityX (setRandomVelocity b r1 r2) \<noteq> 0"
proof -
  let ?a = "r1 * pi / 6 + pi / 6"
  have rp: "0 \<le> r1 * pi" "r1 * pi < 1 * pi"
    using assms(1,2) pi_gt_zero by (simp_all only: mult_nonneg_nonneg pi_ge_zero mult_strict_right_mono)
  have "- (pi / 2) < ?a" "?a < pi / 2"
    using rp pi_gt_zero by linarith+
  then have c: "0 < cos ?a" by (rule cos_gt_zero_pi)
  have q: "cos (pi - ?a) \<noteq> 0" "cos (pi + ?a) \<noteq> 0" "cos (2 * pi - ?a) \<noteq> 0" "cos ?a \<noteq> 0"
    using c by (simp_all only: cos_pi_minus cos_periodic_pi2 cos_2pi_minus)
  define fa where "fa = (if \<lfloor>r2 * 4\<rfloor> = 0 then ?a else if \<lfloor>r2 * 4\<rfloor> = 1 then pi - ?a
      else if \<lfloor>r2 * 4\<rfloor> = 2 then pi + ?a else 2 * pi - ?a)"
  have "cos fa \<noteq> 0" unfolding fa_def using q by (auto simp only: split: if_split)
  moreover have "velocityX (setRandomVelocity b r1 r2) = cos fa * ball.speed b"
  proof -
    have sel: "\<And>a c. velocityX (b\<lparr>velocityX := a, velocityY := c\<rparr>) = a" by simp
    show ?thesis unfolding setRandomVelocity_def Let_def fa_def by (rule sel)
  qed
  ultimately show ?thesis using assms(3) by simp
qed

lemma Ball_new_horizontal:
  assumes "0 \<le> r1" and "r1 < 1"
  shows "velocityX (Ball_new x0 y0 cw ch r1 r2) \<noteq> 0"
  unfolding Ball_new_def by (rule setRandomVelocity_horizontal [OF assms]) simp

lemma ball_step_horizontal:
  assumes inv: "ball_inv b" and vx: "velocityX b \<noteq> 0" and ok: "game_op op"
  shows "velocityX (ball_step b op) \<noteq> 0"
proof (cases op)
  case (SetRandomVelocity r1 r2)
  then show ?thesis
    using ok ball_invD(2) [OF inv] by (simp add: setRandomVelocity_horizontal)
next
  case (Update dt)
  then show ?thesis using vx by (simp add: Ball_update_def)
next
  case CheckWallCollision
  then show ?thesis
    using vx by (simp add: checkWallCollision_def Let_def bounceDown_def bounceUp_def)
next
  case (ApplyPaddleHit h)
  have c: "ball_constants b" and s: "0 < ball.speed b" using inv by (simp_all add: ball_invD)
  have "- 1 \<le> h" "h \<le> 1" using ok ApplyPaddleHit by simp_all
  then have "1 / 2 \<le> cos (h * (pi / 3))" by (rule cos_bounce_ge_half)
  then have "cos (h * (pi / 3)) \<noteq> 0" by linarith
  moreover have "maxBounceAngle b = pi / 3" using c by (simp add: ball_constants_def)
  ultimately have "cos (h * maxBounceAngle b) \<noteq> 0" by (simp only: not_False_eq_True)
  moreover have "0 < ball.speed (applyPaddleHit b h)"
    using c s by (simp add: applyPaddleHit_speed ball_constants_def)
  ultimately show ?thesis
    using ApplyPaddleHit applyPaddleHit_velocity(1) [OF vx, of h] vx by (simp add: sgn_if)
next
  case IncreaseSpeed
  have "0 < ball.speed (increaseSpeed b)"
    using ball_invD [OF inv] by (simp add: increaseSpeed_speed ball_constants_def)
  moreover have "0 < velocityMagnitude b" using vx by (simp add: magnitude_pos)
  ultimately show ?thesis
    using IncreaseSpeed increaseSpeed_velocity(1) [of b] vx by simp
next
  case (Reset x0 y0 r1 r2)
  have "initialSpeed b \<noteq> 0" using ball_invD(1) [OF inv] by (simp add: ball_constants_def)
  then show ?thesis
    using ok Reset by (simp add: Ball_reset_def setRandomVelocity_horizontal)
qed

lemma ball_steps_horizontal:
  assumes "ball_inv b" and "velocityX b \<noteq> 0" and "list_all game_op ops"
  shows "velocityX (foldl ball_step b ops) \<noteq> 0"
  using assms
proof (induction ops arbitrary: b)
  case Nil
  then show ?case by simp
next
  case (Cons op ops)
  have "ball_inv (ball_step b op)" using Cons.prems(1) by (rule ball_step_inv)
  moreover have "velocityX (ball_step b op) \<noteq> 0"
    using Cons.prems by (simp add: ball_step_horizontal)
  ultimately show ?case using Cons.IH [of "ball_step b op"] Cons.prems(3) by simp
qed

lemma game_ball_horizontal:
  assumes "0 \<le> rnd1" and "rnd1 < 1" and "list_all game_op ops"
  shows "velocityX (foldl ball_step (Ball_new x0 y0 cw ch rnd1 rnd2) ops) \<noteq> 0"
  using ball_steps_horizontal [OF Ball_new_inv Ball_new_horizontal [OF assms(1,2)] assms(3)] .

lemma low_canvas_game:
  "playerPaddle (Game_new 90 60 rnd) = paddleOnLowCanvas"
  by (simp add: Game_new_def paddleOnLowCanvas_def Let_def)

lemma ballOnLowCanvas_fields:
  "ball.y ballOnLowCanvas = 5"
  "radius ballOnLowCanvas = 10"
  "ball.canvasHeight ballOnLowCanvas = 10"
  "velocityY ballOnLowCanvas = 150"
  by (simp_all add: ballOnLowCanvas_def Ball_new_def setRandomVelocity_def Let_def sin_30)

lemma low_canvas_ball: "ball (Game_new 15 10 (\<lambda>n. 0)) = ballOnLowCanvas"
  by (simp add: Game_new_def ballOnLowCanvas_def Let_def)


lemma game_ball_speed_bounds:
  "0 < ball.speed (foldl ball_step (Ball_new x0 y0 cw ch rnd1 rnd2) ops) \<and>
   ball.speed (foldl ball_step (Ball_new x0 y0 cw ch rnd1 rnd2) ops) \<le> 600"
proof -
  have "ball_inv (foldl ball_step (Ball_new x0 y0 cw ch rnd1 rnd2) ops)"
    by (rule ball_steps_inv) (rule Ball_new_inv)
  then show ?thesis by (simp add: ball_inv_def ball_constants_def)
qed

section \<open>Properties of the specification\<close>

text \<open>
  C1. Speed ramp. For every ball and every call, \<open>increaseSpeed\<close> and \<open>applyPaddleHit\<close>
  (which calls it once) leave \<open>speed = min (speed \<sqdot> speedIncrement) maxSpeed\<close>, which is at
  most \<open>maxSpeed\<close>. Whenever the velocity is not the zero vector, \<open>increaseSpeed\<close>
  multiplies both components by the same factor, the new speed over the old magnitude, so
  that the direction is kept. For a ball that satisfies the invariant of the class (every
  ball made by the constructor and its methods does) the factor is positive, the speed
  does not decrease, and along any sequence of paddle hits the speed never decreases and
  never exceeds \<open>maxSpeed\<close>.
\<close>

theorem speed_ramp:
  "ball.speed (increaseSpeed b) = min (ball.speed b * speedIncrement b) (maxSpeed b) \<and>
   ball.speed (applyPaddleHit b h) = min (ball.speed b * speedIncrement b) (maxSpeed b) \<and>
   ball.speed (increaseSpeed b) \<le> maxSpeed b \<and>
   (velocityX b \<noteq> 0 \<or> velocityY b \<noteq> 0 \<longrightarrow>
      velocityX (increaseSpeed b) = ball.speed (increaseSpeed b) / velocityMagnitude b * velocityX b \<and>
      velocityY (increaseSpeed b) = ball.speed (increaseSpeed b) / velocityMagnitude b * velocityY b) \<and>
   (ball_inv b \<longrightarrow>
      ball.speed b \<le> ball.speed (increaseSpeed b) \<and>
      0 < ball.speed (increaseSpeed b) / velocityMagnitude b \<and>
      (\<forall>hs hs'. ball.speed (foldl applyPaddleHit b hs) \<le> ball.speed (foldl applyPaddleHit b (hs @ hs')) \<and>
                ball.speed (foldl applyPaddleHit b hs) \<le> maxSpeed b))"
proof (intro conjI impI allI)
  show "ball.speed (increaseSpeed b) = min (ball.speed b * speedIncrement b) (maxSpeed b)"
    by (rule increaseSpeed_speed)
  show "ball.speed (applyPaddleHit b h) = min (ball.speed b * speedIncrement b) (maxSpeed b)"
    by (rule applyPaddleHit_speed)
  show "ball.speed (increaseSpeed b) \<le> maxSpeed b"
    by (simp add: increaseSpeed_speed)
next
  assume nz: "velocityX b \<noteq> 0 \<or> velocityY b \<noteq> 0"
  show "velocityX (increaseSpeed b) = ball.speed (increaseSpeed b) / velocityMagnitude b * velocityX b"
    by (rule increaseSpeed_velocity(1) [OF nz])
  show "velocityY (increaseSpeed b) = ball.speed (increaseSpeed b) / velocityMagnitude b * velocityY b"
    by (rule increaseSpeed_velocity(2) [OF nz])
next
  assume inv: "ball_inv b"
  show "ball.speed b \<le> ball.speed (increaseSpeed b)"
    using speed_grows(1) [OF inv] by (simp add: increaseSpeed_speed)
  show "0 < ball.speed (increaseSpeed b) / velocityMagnitude b"
    using speed_grows(2) [OF inv] inv by (simp add: increaseSpeed_speed ball_inv_def)
  fix hs hs'
  have i: "ball_inv (foldl applyPaddleHit b hs)" using inv by (rule hits_inv)
  show "ball.speed (foldl applyPaddleHit b hs) \<le> ball.speed (foldl applyPaddleHit b (hs @ hs'))"
    using hits_speed_mono [OF i, of hs'] by simp
  show "ball.speed (foldl applyPaddleHit b hs) \<le> maxSpeed b"
    using i by (simp add: ball_inv_def hits_maxSpeed)
qed

theorem speed_ramp_witness:
  "ball.speed (applyPaddleHit ballMovingRight 0) = 315 \<and>
   velocityX (increaseSpeed ballMovingRight) = 315 \<and>
   velocityY (increaseSpeed ballMovingRight) = 0 \<and>
   ball.speed ballMovingRight \<le> ball.speed (foldl applyPaddleHit ballMovingRight [0, 1])"
proof -
  have m: "velocityMagnitude ballMovingRight = 300"
    using magnitude_horizontal [of ballMovingRight] by (simp add: ballMovingRight_def)
  have s: "ball.speed (increaseSpeed ballMovingRight) = 315"
    by (simp add: increaseSpeed_speed ballMovingRight_def)
  have f: "velocityX ballMovingRight = 300" "velocityY ballMovingRight = 0"
    "ball.speed ballMovingRight = 300" "speedIncrement ballMovingRight = 105 / 100"
    "maxSpeed ballMovingRight = 600"
    by (simp_all add: ballMovingRight_def)
  from speed_ramp [of ballMovingRight 0] ballMovingRight_inv
  have "ball.speed (applyPaddleHit ballMovingRight 0) = 315"
    and "velocityX (increaseSpeed ballMovingRight) = 315"
    and "velocityY (increaseSpeed ballMovingRight) = 0"
    and "\<forall>hs hs'. ball.speed (foldl applyPaddleHit ballMovingRight hs)
            \<le> ball.speed (foldl applyPaddleHit ballMovingRight (hs @ hs'))"
    by (simp_all add: m s f)
  then show ?thesis using spec [OF spec [OF \<open>\<forall>hs hs'. _\<close>], of "[]" "[0, 1]"] by simp
qed

text \<open>
  C2 (as amended). Wall bounce. After \<open>checkWallCollision\<close> the ball's \<open>y\<close> is at most
  \<open>canvasHeight - radius\<close>, for every ball; it is at least \<open>radius\<close> whenever the canvas
  is at least as high as the ball's diameter. Both edges are tested in the same call, the
  bottom one on the ball as the top test left it, and the result is true exactly when a
  test fired. After a bottom hit \<open>velocityY \<le> 0\<close>; after a top hit that no bottom hit
  follows \<open>velocityY \<ge> 0\<close>; on a canvas higher than the diameter the two tests never
  both fire.
\<close>

theorem wall_bounce:
  "ball.y (fst (checkWallCollision b)) \<le> ball.canvasHeight b - radius b \<and>
   (2 * radius b \<le> ball.canvasHeight b \<longrightarrow> radius b \<le> ball.y (fst (checkWallCollision b))) \<and>
   (snd (checkWallCollision b) \<longleftrightarrow> topWallCrossed b \<or> bottomWallCrossed (afterTopCheck b)) \<and>
   (bottomWallCrossed (afterTopCheck b) \<longrightarrow> velocityY (fst (checkWallCollision b)) \<le> 0) \<and>
   (topWallCrossed b \<and> \<not> bottomWallCrossed (afterTopCheck b) \<longrightarrow>
      0 \<le> velocityY (fst (checkWallCollision b))) \<and>
   (2 * radius b < ball.canvasHeight b \<longrightarrow>
      \<not> (topWallCrossed b \<and> bottomWallCrossed (afterTopCheck b)))"
  by (auto simp: checkWallCollision_cases afterTopCheck_fields bounceUp_def
      topWallCrossed_def bottomWallCrossed_def)

theorem wall_bounce_witness:
  "ball.y (fst (checkWallCollision ballNearTop)) = 10 \<and>
   velocityY (fst (checkWallCollision ballNearTop)) = 240 \<and>
   snd (checkWallCollision ballNearTop)"
proof -
  have t: "topWallCrossed ballNearTop"
    by (simp add: topWallCrossed_def ballNearTop_def)
  have nb: "\<not> bottomWallCrossed (afterTopCheck ballNearTop)"
    by (simp add: bottomWallCrossed_def afterTopCheck_fields t) (simp add: ballNearTop_def)
  have "ball.y (fst (checkWallCollision ballNearTop)) = 10"
    "velocityY (fst (checkWallCollision ballNearTop)) = 240"
    using t nb by (simp_all add: checkWallCollision_cases afterTopCheck_fields) (simp_all add: ballNearTop_def)
  then show ?thesis using wall_bounce [of ballNearTop] t nb by simp
qed

theorem wall_bounce_counterexample:
  "topWallCrossed ballOnLowCanvas \<and>
   ball.y (fst (checkWallCollision ballOnLowCanvas)) = 0 \<and>
   radius (fst (checkWallCollision ballOnLowCanvas)) = 10 \<and>
   velocityY (fst (checkWallCollision ballOnLowCanvas)) = - 150 \<and>
   \<not> (radius (fst (checkWallCollision ballOnLowCanvas))
        \<le> ball.y (fst (checkWallCollision ballOnLowCanvas)))"
proof -
  have t: "topWallCrossed ballOnLowCanvas"
    by (simp add: topWallCrossed_def ballOnLowCanvas_fields)
  have b: "bottomWallCrossed (afterTopCheck ballOnLowCanvas)"
    by (simp add: bottomWallCrossed_def afterTopCheck_fields t ballOnLowCanvas_fields)
  have "checkWallCollision ballOnLowCanvas = (bounceUp (afterTopCheck ballOnLowCanvas), True)"
    by (simp add: checkWallCollision_cases b)
  then show ?thesis
    using t by (simp add: bounceUp_def afterTopCheck_fields ballOnLowCanvas_fields)
qed



text \<open>
  C4 (as amended). Paddle on screen. For every paddle that is not higher than its canvas,
  every input, ball and elapsed time: after \<open>update\<close> on a human paddle and after
  \<open>updateAI\<close> on an AI paddle, \<open>0 \<le> y \<le> canvasHeight - height\<close>. \<open>update\<close> on an AI
  paddle and \<open>updateAI\<close> on a human paddle return the paddle unchanged.
\<close>

theorem paddle_on_screen:
  "(paddle.height p \<le> paddle.canvasHeight p \<and> \<not> isAI p \<longrightarrow>
      0 \<le> paddle.y (Paddle_update p dt ih) \<and>
      paddle.y (Paddle_update p dt ih) \<le> paddle.canvasHeight p - paddle.height p) \<and>
   (paddle.height p \<le> paddle.canvasHeight p \<and> isAI p \<longrightarrow>
      0 \<le> paddle.y (Paddle_updateAI p b dt) \<and>
      paddle.y (Paddle_updateAI p b dt) \<le> paddle.canvasHeight p - paddle.height p) \<and>
   (isAI p \<longrightarrow> Paddle_update p dt ih = p) \<and>
   (\<not> isAI p \<longrightarrow> Paddle_updateAI p b dt = p)"
  using Paddle_update_range [of p dt ih] Paddle_updateAI_range [of p b dt]
    Paddle_wrong_role
  by blast

theorem paddle_on_screen_witness:
  "paddle.y (Paddle_update humanPaddle (1 / 2) downPressed) = 250 \<and>
   0 \<le> paddle.y (Paddle_update humanPaddle 0 InputHandler_new) \<and>
   paddle.y (Paddle_update humanPaddle 0 InputHandler_new) \<le> 320"
proof -
  have "paddle.y (Paddle_update humanPaddle (1 / 2) downPressed) = 250"
    by (simp add: Paddle_update_def enforceBounds_def humanPaddle_def Paddle_new_def
        getInputDirection_def downPressed_def InputHandler_new_def Let_def)
  moreover have "paddle.height humanPaddle \<le> paddle.canvasHeight humanPaddle \<and> \<not> isAI humanPaddle"
    "paddle.canvasHeight humanPaddle - paddle.height humanPaddle = 320"
    by (simp_all add: humanPaddle_def Paddle_new_def)
  ultimately show ?thesis
    using paddle_on_screen [of humanPaddle 0 InputHandler_new] by simp
qed

theorem paddle_on_screen_counterexample:
  "paddle.y (Paddle_update paddleOnLowCanvas 0 InputHandler_new) = 0 \<and>
   paddle.canvasHeight (Paddle_update paddleOnLowCanvas 0 InputHandler_new)
     - paddle.height (Paddle_update paddleOnLowCanvas 0 InputHandler_new) = - 20 \<and>
   \<not> (paddle.y (Paddle_update paddleOnLowCanvas 0 InputHandler_new)
        \<le> paddle.canvasHeight (Paddle_update paddleOnLowCanvas 0 InputHandler_new)
          - paddle.height (Paddle_update paddleOnLowCanvas 0 InputHandler_new))"
  by (simp add: Paddle_update_def enforceBounds_def paddleOnLowCanvas_def Paddle_new_def
      getInputDirection_def InputHandler_new_def Let_def)

text \<open>
  C6. Scoring pass. In \<open>checkScoring\<close> the AI's score grows by one exactly when the ball's
  right edge is left of \<open>x = 0\<close>, and the human's exactly when the ball's left edge is
  right of \<open>x = width\<close>; when either fires the ball is back at the canvas centre with
  \<open>initialSpeed\<close>, and when neither fires nothing changes. On a canvas at least
  \<open>- 2 \<sqdot> radius\<close> wide (so on every canvas \<open>setupCanvas\<close> returns, lemma
  \<open>setupCanvas_width\<close>) at most one of the two fires. Scenario 1: on a canvas 800 wide
  with the ball at \<open>(5, H / 2)\<close>, \<open>velocityX = -50\<close> and radius 10, one \<open>update\<close> whose
  elapsed time puts the right edge left of 0 makes the AI's score 1, puts the ball at
  \<open>(400, H / 2)\<close> and leaves the state \<open>PLAYING\<close>.
\<close>

theorem scoring_pass:
  "aiScore (checkScoring g) = aiScore g + (if exitedLeft g then 1 else 0) \<and>
   playerScore (checkScoring g) = playerScore g + (if exitedRight g then 1 else 0) \<and>
   (exitedLeft g \<or> exitedRight g \<longrightarrow>
      ball.x (ball (checkScoring g)) = game.width g / 2 \<and>
      ball.y (ball (checkScoring g)) = game.height g / 2 \<and>
      ball.speed (ball (checkScoring g)) = initialSpeed (ball g)) \<and>
   (\<not> exitedLeft g \<and> \<not> exitedRight g \<longrightarrow> checkScoring g = g) \<and>
   (- 2 * radius (ball g) \<le> game.width g \<longrightarrow> \<not> (exitedLeft g \<and> exitedRight g)) \<and>
   (5 + (- 50) * dt + 10 < 0 \<longrightarrow>
      (\<exists>g'. update (scenario1 H rnd ih) dt = Some g' \<and>
            aiScore g' = 1 \<and> playerScore g' = 0 \<and>
            ball.x (ball g') = 400 \<and> ball.y (ball g') = H / 2 \<and>
            ball.speed (ball g') = 300 \<and> state g' = PLAYING))"
  using checkScoring_scores [of g] checkScoring_ball [of g] checkScoring_idle [of g]
    exits_exclusive [of g] scenario1_tick [of dt H rnd ih]
  by blast

theorem scoring_pass_witness:
  "\<exists>g'. update (scenario1 600 (\<lambda>n. 0) InputHandler_new) (2 / 5) = Some g' \<and>
        aiScore g' = 1 \<and> playerScore g' = 0 \<and>
        ball.x (ball g') = 400 \<and> ball.y (ball g') = 600 / 2 \<and>
        ball.speed (ball g') = 300 \<and> state g' = PLAYING"
proof -
  have "5 + (- 50) * (2 / 5) + 10 < (0::real)" by simp
  then show ?thesis
    using scoring_pass [of "scenario1 600 (\<lambda>n. 0) InputHandler_new" "2 / 5" 600 "\<lambda>n. 0" InputHandler_new]
    by blast
qed

text \<open>
  C7. State machine. For every game that satisfies the invariant (every game that a run
  of frames and resizes reaches from the constructor does), \<open>update\<close> returns a game
  that satisfies it again: the state is \<open>GAME_OVER\<close> exactly when a score has reached
  \<open>targetScore\<close>. From \<open>GAME_OVER\<close>, \<open>update\<close> resets the game to \<open>PLAYING\<close> and 0 : 0
  when the restart input is active and changes nothing otherwise. From \<open>PLAYING\<close>, where
  both scores are below the target, the \<open>PLAYING\<close> block adds at most one point to each
  score and ends in \<open>GAME_OVER\<close> exactly when a score has become \<open>targetScore\<close>;
  \<open>update\<close> then runs the \<open>GAME_OVER\<close> block on that game in the same call. Scenario 4:
  after \<open>n \<le> 10\<close> consecutive points of the AI in a new game the state is \<open>GAME_OVER\<close>
  exactly when \<open>n = 10\<close>, and from then on \<open>update\<close> changes nothing.
\<close>

theorem match_state_machine:
  "(game_inv g \<longrightarrow>
      (\<exists>g'. update g dt = Some g' \<and> game_inv g') \<and>
      (state g = GAME_OVER \<longrightarrow>
         update g dt = Some (if restartRequested g then Game_reset g else g) \<and>
         state (Game_reset g) = PLAYING \<and> playerScore (Game_reset g) = 0 \<and>
         aiScore (Game_reset g) = 0) \<and>
      (state g = PLAYING \<longrightarrow>
         aiScore g < targetScore g \<and> playerScore g < targetScore g \<and>
         (\<exists>g1. updatePlaying g dt = Some g1 \<and>
               update g dt = Some (if state g1 = GAME_OVER then updateGameOver g1 else g1) \<and>
               aiScore g \<le> aiScore g1 \<and> aiScore g1 \<le> aiScore g + 1 \<and>
               playerScore g \<le> playerScore g1 \<and> playerScore g1 \<le> playerScore g + 1 \<and>
               (state g1 = GAME_OVER) =
                 (aiScore g1 = targetScore g \<or> playerScore g1 = targetScore g)))) \<and>
   (\<exists>g'. run (Game_new w h rnd) es = Some g' \<and> game_inv g') \<and>
   (28 \<le> w \<and> n \<le> 10 \<longrightarrow>
      (\<exists>gn. aiScoringTicks n (Game_new w h rnd) = Some gn \<and>
            aiScore gn = n \<and> playerScore gn = 0 \<and>
            state gn = (if n = 10 then GAME_OVER else PLAYING) \<and>
            (n = 10 \<longrightarrow> update gn dt = Some gn)))"
proof (intro conjI impI)
  assume inv: "game_inv g"
  show "\<exists>g'. update g dt = Some g' \<and> game_inv g'" using inv by (rule update_inv)
  {
    assume over: "state g = GAME_OVER"
    show "update g dt = Some (if restartRequested g then Game_reset g else g)"
      using over by (rule update_GAME_OVER)
    show "state (Game_reset g) = PLAYING" "playerScore (Game_reset g) = 0"
      "aiScore (Game_reset g) = 0"
      by (simp_all add: Game_reset_fields)
  }
  {
    assume playing: "state g = PLAYING"
    show b: "aiScore g < targetScore g" "playerScore g < targetScore g"
      using playing_below_target [OF inv playing] by simp_all
    obtain g1 where g1: "updatePlaying g dt = Some g1" "game_inv g1"
      "targetScore g1 = targetScore g"
      "aiScore g \<le> aiScore g1" "aiScore g1 \<le> aiScore g + 1"
      "playerScore g \<le> playerScore g1" "playerScore g1 \<le> playerScore g + 1"
      using updatePlaying_step [OF inv playing] by blast
    have "(state g1 = GAME_OVER) = (aiScore g1 = targetScore g \<or> playerScore g1 = targetScore g)"
      using g1(2-7) b by (auto simp: game_inv_def score_state_ok_def)
    then show "\<exists>g1. updatePlaying g dt = Some g1 \<and>
               update g dt = Some (if state g1 = GAME_OVER then updateGameOver g1 else g1) \<and>
               aiScore g \<le> aiScore g1 \<and> aiScore g1 \<le> aiScore g + 1 \<and>
               playerScore g \<le> playerScore g1 \<and> playerScore g1 \<le> playerScore g + 1 \<and>
               (state g1 = GAME_OVER) =
                 (aiScore g1 = targetScore g \<or> playerScore g1 = targetScore g)"
      using g1 update_PLAYING [OF playing g1(1)] by blast
  }
next
  show "\<exists>g'. run (Game_new w h rnd) es = Some g' \<and> game_inv g'"
    by (rule run_inv) (rule Game_new_inv)
next
  assume a: "28 \<le> w \<and> n \<le> 10"
  then obtain gn where gn: "aiScoringTicks n (Game_new w h rnd) = Some gn" "aiScore gn = n"
    "playerScore gn = 0" "state gn = (if n = 10 then GAME_OVER else PLAYING)"
    "arena gn = (w, h, 10, InputHandler_new, 20, w - 28, 10, 300)"
    using ai_scoring_ticks [of w n h rnd] by blast
  have "n = 10 \<Longrightarrow> update gn dt = Some gn"
    using game_over_frozen [of gn dt] gn(4,5) by (simp add: arena_def)
  then show "\<exists>gn. aiScoringTicks n (Game_new w h rnd) = Some gn \<and>
            aiScore gn = n \<and> playerScore gn = 0 \<and>
            state gn = (if n = 10 then GAME_OVER else PLAYING) \<and>
            (n = 10 \<longrightarrow> update gn dt = Some gn)"
    using gn by blast
qed

theorem match_state_machine_witness:
  "(\<exists>g'. update (Game_new 800 600 (\<lambda>n. 0)) (1 / 60) = Some g' \<and> game_inv g') \<and>
   (\<exists>g9. aiScoringTicks 9 (Game_new 800 600 (\<lambda>n. 0)) = Some g9 \<and>
         aiScore g9 = 9 \<and> state g9 = PLAYING) \<and>
   (\<exists>g10. aiScoringTicks 10 (Game_new 800 600 (\<lambda>n. 0)) = Some g10 \<and>
         aiScore g10 = 10 \<and> state g10 = GAME_OVER \<and> update g10 (1 / 60) = Some g10)"
proof -
  have i: "game_inv (Game_new 800 600 (\<lambda>n. 0))" by (rule Game_new_inv)
  have w: "(28::real) \<le> 800 \<and> (9::nat) \<le> 10" "(28::real) \<le> 800 \<and> (10::nat) \<le> 10" by simp_all
  show ?thesis
    using match_state_machine [of "Game_new 800 600 (\<lambda>n. 0)" "1 / 60" 800 600 "\<lambda>n. 0" "[]" 9]
      match_state_machine [of "Game_new 800 600 (\<lambda>n. 0)" "1 / 60" 800 600 "\<lambda>n. 0" "[]" 10]
      i w
    by (auto simp del: aiScoringTicks.simps)
qed

text \<open>
  C9 (as amended). No validation. Every constructor returns an object for every argument:
  \<open>Paddle\<close> stores the width and height it is given, whatever their sign; \<open>Ball\<close> always
  has radius 10; \<open>Game\<close> always has target score 10, a ball of radius 10 and paddles 8
  wide and 80 high.
\<close>

theorem no_validation:
  "(\<exists>p. construct_Paddle x0 y0 w h ch ai = Returns p \<and> paddle.width p = w \<and> paddle.height p = h) \<and>
   (\<exists>b. construct_Ball bx by cw bh rnd1 rnd2 = Returns b \<and> radius b = 10) \<and>
   (\<exists>g. construct_Game gw gh rnd = Returns g \<and> targetScore g = 10 \<and> radius (ball g) = 10 \<and>
        paddle.width (playerPaddle g) = 8 \<and> paddle.height (playerPaddle g) = 80 \<and>
        paddle.width (aiPaddle g) = 8 \<and> paddle.height (aiPaddle g) = 80)"
  by (simp add: construct_Paddle_def construct_Ball_def construct_Game_def Paddle_new_def
      Ball_new_def Game_new_def setRandomVelocity_def Let_def)

theorem no_validation_witness:
  "\<exists>p. construct_Paddle 20 160 8 80 400 False = Returns p \<and> paddle.width p = 8 \<and> paddle.height p = 80"
  using no_validation [of 20 160 8 80 400 False] by blast

theorem no_validation_counterexample:
  "construct_Paddle 20 160 0 (- 80) 400 False \<noteq> Throws \<and>
   construct_Paddle 20 160 0 (- 80) 400 False = Returns (Paddle_new 20 160 0 (- 80) 400 False) \<and>
   paddle.width (Paddle_new 20 160 0 (- 80) 400 False) = 0 \<and>
   paddle.height (Paddle_new 20 160 0 (- 80) 400 False) = - 80"
  by (simp add: construct_Paddle_def Paddle_new_def)

text \<open>
  C10. Rebound stays horizontal. For every ball with the constructor's constants,
  \<open>velocityX \<noteq> 0\<close> and positive speed, and every hit point in \<open>[-1, 1]\<close>: after
  \<open>applyPaddleHit\<close>, \<open>\<bar>velocityX\<bar> \<ge> speed \<sqdot> cos maxBounceAngle = speed / 2\<close> for the new
  speed (and for the old one when it was at most \<open>maxSpeed\<close>), the speed is positive and
  the sign of \<open>velocityX\<close> is reversed.
\<close>

theorem rebound_horizontal_bound:
  assumes "ball_constants b" and "velocityX b \<noteq> 0" and "0 < ball.speed b"
    and "- 1 \<le> h" and "h \<le> 1"
  shows "cos (maxBounceAngle b) = 1 / 2 \<and>
         ball.speed (applyPaddleHit b h) * cos (maxBounceAngle b) \<le> \<bar>velocityX (applyPaddleHit b h)\<bar> \<and>
         0 < ball.speed (applyPaddleHit b h) \<and>
         sgn (velocityX (applyPaddleHit b h)) = - sgn (velocityX b) \<and>
         (ball.speed b \<le> maxSpeed b \<longrightarrow> ball.speed b / 2 \<le> \<bar>velocityX (applyPaddleHit b h)\<bar>)"
proof -
  have mba: "maxBounceAngle b = pi / 3" using assms(1) by (simp add: ball_constants_def)
  have c: "1 / 2 \<le> cos (h * maxBounceAngle b)"
    unfolding mba using assms(4,5) by (rule cos_bounce_ge_half)
  have s: "0 < ball.speed (applyPaddleHit b h)"
    using assms(1,3) by (simp add: applyPaddleHit_speed ball_constants_def)
  have vx: "velocityX (applyPaddleHit b h) =
      ball.speed (applyPaddleHit b h) * (sgn (- velocityX b) * cos (h * maxBounceAngle b))"
    by (rule applyPaddleHit_velocity(1) [OF assms(2)])
  have sg: "\<bar>sgn (- velocityX b)\<bar> = 1" using assms(2) by (simp add: sgn_if)
  have "\<bar>velocityX (applyPaddleHit b h)\<bar>
      = ball.speed (applyPaddleHit b h) * cos (h * maxBounceAngle b)"
    unfolding vx using s c sg by (simp add: abs_mult)
  moreover have "ball.speed (applyPaddleHit b h) * (1 / 2)
      \<le> ball.speed (applyPaddleHit b h) * cos (h * maxBounceAngle b)"
    using s c by (intro mult_left_mono) simp_all
  ultimately have bound: "ball.speed (applyPaddleHit b h) / 2 \<le> \<bar>velocityX (applyPaddleHit b h)\<bar>"
    by simp
  have "sgn (velocityX (applyPaddleHit b h)) = sgn (- velocityX b)"
    unfolding vx using s c by (simp add: sgn_mult)
  then have flip: "sgn (velocityX (applyPaddleHit b h)) = - sgn (velocityX b)" by simp
  have grow: "ball.speed b \<le> maxSpeed b \<Longrightarrow> ball.speed b \<le> ball.speed (applyPaddleHit b h)"
    using assms(1,3) by (simp add: applyPaddleHit_speed ball_constants_def)
  show ?thesis
    using bound s flip grow by (auto simp: mba cos_60)
qed

theorem rebound_horizontal_bound_witness:
  "315 / 2 \<le> \<bar>velocityX (applyPaddleHit ballMovingRight 1)\<bar> \<and>
   sgn (velocityX (applyPaddleHit ballMovingRight 1)) = - 1"
proof -
  have f: "velocityX ballMovingRight = 300" "ball.speed ballMovingRight = 300"
    "speedIncrement ballMovingRight = 105 / 100" "maxSpeed ballMovingRight = 600"
    "maxBounceAngle ballMovingRight = pi / 3"
    by (simp_all add: ballMovingRight_def)
  have c: "ball_constants ballMovingRight" using ballMovingRight_inv by (rule ball_invD(1))
  have "ball.speed (applyPaddleHit ballMovingRight 1) = 315"
    by (simp add: applyPaddleHit_speed f)
  then show ?thesis using rebound_horizontal_bound [OF c, of 1] by (simp add: f cos_60)
qed

end
